theory Spec2Isabelle
  imports Main "HOL-Library.Multiset" "HOL-Library.Sublist"
begin

section \<open>Data model of the voice-call hook (src/app/hooks/useVoiceCall.ts)\<close>

text \<open>
  The hook \<^verbatim>\<open>useVoiceCall(socket, token)\<close> keeps one React state cell (\<^verbatim>\<open>callState\<close>) and a
  handful of refs. Every handler of the hook is embedded as a function on the record
  \<open>Hook\<close> below. The browser objects the hook talks to (the peer connection, the
  capture tracks, the REST client, the signaling socket) are not computed: the model
  records the requests made on them, in order.
\<close>

datatype Status = Idle | Ringing | Answered | Connected | Ended

text \<open>A \<^verbatim>\<open>MediaStream\<close>: its id and the ids of the tracks \<^verbatim>\<open>getTracks()\<close> returns.\<close>

record MediaStream =
  streamId :: nat
  tracks :: "nat list"

text \<open>The interface \<^verbatim>\<open>CallState\<close> (lines 11-18).\<close>

record CallState =
  callId :: "string option"
  callerId :: "string option"
  receiverId :: "string option"
  status :: Status
  remoteStream :: "MediaStream option"
  localStream :: "MediaStream option"

text \<open>An \<^verbatim>\<open>RTCConfiguration\<close> is the list of the urls of its ice servers.\<close>

type_synonym RTCConfiguration = "string list"

definition defaultRTCConfig :: RTCConfiguration where
  "defaultRTCConfig = [''stun:stun.l.google.com:19302'']"

text \<open>
  An \<^verbatim>\<open>RTCPeerConnection\<close> as the hook sees it: the configuration it was built with, the
  tracks that have a sender (\<^verbatim>\<open>addTrack\<close>, read back by \<^verbatim>\<open>getSenders\<close>), and the arguments of
  the calls of \<^verbatim>\<open>setRemoteDescription\<close>, \<^verbatim>\<open>setLocalDescription\<close> and \<^verbatim>\<open>addIceCandidate\<close> made on
  it, each in call order. Session descriptions and candidates are opaque strings.
\<close>

record PeerConnection =
  configuration :: RTCConfiguration
  senders :: "nat list"
  remoteDescriptions :: "string list"
  localDescriptions :: "string list"
  iceCandidates :: "string list"

text \<open>The calls of the REST client (src/app/api/calls.ts): token first, as in the source.\<close>

datatype ApiCall =
    ApiInitiateCall string string
  | ApiAnswerCall string string
  | ApiRejectCall string string
  | ApiEndCall string string

text \<open>
  What \<^verbatim>\<open>ChatSocket\<close> emits for the hook (chatSocket.ts, lines 471-493): call id, payload,
  addressee.
\<close>

datatype Signal =
    EmitWebRTCOffer string string string
  | EmitWebRTCAnswer string string string
  | EmitICECandidate string string string

text \<open>
  The state of the hook. \<open>token\<close> and \<open>socket\<close> are its two arguments (\<open>socket = Some c\<close>
  is a \<^verbatim>\<open>ChatSocket\<close> whose underlying connection has \<^verbatim>\<open>connected = c\<close>); no handler changes
  them. \<open>callState\<close> is the React state, \<open>callStateRef\<close> the ref that the effect of lines
  40-42 copies it into after a render, and \<open>effectCallState\<close> the \<^verbatim>\<open>callState\<close> that the
  closure of the listener effect (lines 399-655) captured, read at line 516. The last
  five fields are the record of the outside world: the tracks on which \<^verbatim>\<open>stop()\<close> was
  called, the peer connections that were closed, the number of \<^verbatim>\<open>getUserMedia\<close> requests,
  the REST calls and the emitted signals.
\<close>

record Hook =
  token :: "string option"
  socket :: "bool option"
  callState :: CallState
  callStateRef :: CallState
  effectCallState :: CallState
  pcRef :: "PeerConnection option"
  localStreamRef :: "MediaStream option"
  isCallerRef :: bool
  rtcConfigRef :: "RTCConfiguration option"
  iceCandidateQueueRef :: "string list"
  remoteDescriptionSetRef :: bool
  stoppedTracks :: "nat list"
  closedPeerConnections :: "PeerConnection list"
  mediaRequests :: nat
  apiCalls :: "ApiCall list"
  signals :: "Signal list"

text \<open>
  An \<^verbatim>\<open>async\<close> handler runs up to its next \<^verbatim>\<open>await\<close> and is resumed later with the outcome
  of the awaited operation; other handlers may run in between. Each handler is therefore
  a family of functions, one per stretch of code between two awaits, each returning the
  new state and the await the handler is now suspended at (\<open>None\<close> when it has returned).
  The constructors carry the local variables and closure values the rest of the handler
  still uses.
\<close>

datatype Await =
    AwaitEndCall
  | AwaitInitiateCall string
  | AwaitInitiateMedia string string
  | AwaitCreateOffer string string
  | AwaitSetLocalOffer string string string
  | AwaitAnswerMedia string string
  | AwaitAnswerCall string
  | AwaitRejectCall string
  | AwaitOfferMedia string string string
  | AwaitOfferSetRemote string string
  | AwaitOfferFlush string string
  | AwaitCreateAnswer string string
  | AwaitSetLocalAnswer string string string
  | AwaitAnswerSetRemote string
  | AwaitAnswerFlush
  | AwaitAddIceCandidate

text \<open>JavaScript truthiness of a \<^verbatim>\<open>string | null\<close>: \<^verbatim>\<open>null\<close> and the empty string are falsy.\<close>

definition truthy :: "string option \<Rightarrow> bool" where
  "truthy v = (case v of None \<Rightarrow> False | Some s \<Rightarrow> s \<noteq> [])"

definition idleCallState :: CallState where
  "idleCallState = \<lparr>callId = None, callerId = None, receiverId = None, status = Idle,
     remoteStream = None, localStream = None\<rparr>"

text \<open>The state of a freshly mounted hook (lines 21-37).\<close>

definition initialHook :: "string option \<Rightarrow> bool option \<Rightarrow> Hook" where
  "initialHook tok sock = \<lparr>token = tok, socket = sock, callState = idleCallState,
     callStateRef = idleCallState, effectCallState = idleCallState, pcRef = None,
     localStreamRef = None, isCallerRef = False, rtcConfigRef = None,
     iceCandidateQueueRef = [], remoteDescriptionSetRef = False, stoppedTracks = [],
     closedPeerConnections = [], mediaRequests = 0, apiCalls = [], signals = []\<rparr>"

text \<open>\<^verbatim>\<open>setCallState\<close> with an updater function.\<close>

definition setCallState :: "(CallState \<Rightarrow> CallState) \<Rightarrow> Hook \<Rightarrow> Hook" where
  "setCallState f h = h\<lparr>callState := f (callState h)\<rparr>"

text \<open>The effect of lines 40-42, run after a render: \<^verbatim>\<open>callStateRef.current = callState\<close>.\<close>

definition render :: "Hook \<Rightarrow> Hook" where
  "render h = h\<lparr>callStateRef := callState h\<rparr>"

definition callApi :: "ApiCall \<Rightarrow> Hook \<Rightarrow> Hook" where
  "callApi c h = h\<lparr>apiCalls := apiCalls h @ [c]\<rparr>"

text \<open>The emit methods of \<^verbatim>\<open>ChatSocket\<close> send only when the socket is connected.\<close>

definition socketEmit :: "Signal \<Rightarrow> Hook \<Rightarrow> Hook" where
  "socketEmit m h = (if socket h = Some True then h\<lparr>signals := signals h @ [m]\<rparr> else h)"

definition requestUserMedia :: "Hook \<Rightarrow> Hook" where
  "requestUserMedia h = h\<lparr>mediaRequests := Suc (mediaRequests h)\<rparr>"

section \<open>The peer connection and the capture stream\<close>

definition addTrack :: "nat \<Rightarrow> PeerConnection \<Rightarrow> PeerConnection" where
  "addTrack t pc = pc\<lparr>senders := senders pc @ [t]\<rparr>"

text \<open>
  \<^verbatim>\<open>initPeerConnection\<close> (lines 45-156): close the previous connection, reset the queue and
  the flag, build a connection and give it the tracks of the stored stream. The
  callbacks it installs are \<open>ontrack\<close> and \<open>onicecandidate\<close> below.
\<close>

definition initPeerConnection :: "RTCConfiguration \<Rightarrow> Hook \<Rightarrow> Hook" where
  "initPeerConnection rtcConfig h =
    (let h1 = (case pcRef h of
                 Some old \<Rightarrow> h\<lparr>closedPeerConnections := closedPeerConnections h @ [old]\<rparr>
               | None \<Rightarrow> h);
         h2 = h1\<lparr>iceCandidateQueueRef := [], remoteDescriptionSetRef := False\<rparr>;
         pc = \<lparr>configuration = rtcConfig, senders = [], remoteDescriptions = [],
                localDescriptions = [], iceCandidates = []\<rparr>
     in h2\<lparr>pcRef := Some (case localStreamRef h2 of
                             Some s \<Rightarrow> foldl (\<lambda>p t. addTrack t p) pc (tracks s)
                           | None \<Rightarrow> pc)\<rparr>)"

text \<open>\<^verbatim>\<open>pc.ontrack\<close> (lines 60-66), with \<^verbatim>\<open>event.streams[0]\<close> (absent when the list is empty).\<close>

definition ontrack :: "MediaStream option \<Rightarrow> Hook \<Rightarrow> Hook" where
  "ontrack stream0 h = setCallState (\<lambda>prev. prev\<lparr>remoteStream := stream0\<rparr>) h"

text \<open>
  \<^verbatim>\<open>pc.onicecandidate\<close> (lines 69-86), with \<^verbatim>\<open>event.candidate\<close>; \<open>None\<close> is the terminal
  \<^verbatim>\<open>null\<close> candidate.
\<close>

definition onicecandidate :: "string option \<Rightarrow> Hook \<Rightarrow> Hook" where
  "onicecandidate candidate h =
    (case candidate of
       Some c \<Rightarrow>
         (if socket h \<noteq> None then
            (let cur = callStateRef h;
                 targetId = (if truthy (receiverId cur) then receiverId cur else callerId cur)
             in case (targetId, callId cur) of
                  (Some target, Some cid) \<Rightarrow>
                    (if target \<noteq> [] \<and> cid \<noteq> [] then socketEmit (EmitICECandidate cid c target) h
                     else h)
                | _ \<Rightarrow> h)
          else h)
     | None \<Rightarrow> h)"

text \<open>
  \<^verbatim>\<open>getLocalStream\<close> (lines 159-202) once \<^verbatim>\<open>getUserMedia\<close> has resolved with \<open>stream\<close>: store
  it, and give its tracks to the connection, if there is one, skipping a track that has
  a sender already. (When \<^verbatim>\<open>getUserMedia\<close> rejects, \<^verbatim>\<open>getLocalStream\<close> rethrows: that is a
  branch of each caller.)
\<close>

definition getLocalStream_resolved :: "MediaStream \<Rightarrow> Hook \<Rightarrow> Hook" where
  "getLocalStream_resolved stream h =
    (let h1 = h\<lparr>localStreamRef := Some stream\<rparr>;
         h2 = setCallState (\<lambda>prev. prev\<lparr>localStream := Some stream\<rparr>) h1
     in case pcRef h2 of
          Some pc \<Rightarrow>
            h2\<lparr>pcRef := Some (foldl (\<lambda>p t. if t \<in> set (senders p) then p else addTrack t p)
                                 pc (tracks stream))\<rparr>
        | None \<Rightarrow> h2)"

text \<open>
  \<^verbatim>\<open>cleanupWebRTCResources\<close> (lines 205-242). Both \<^verbatim>\<open>close()\<close> and \<^verbatim>\<open>stop()\<close> sit in a
  \<^verbatim>\<open>try\<close> of their own whose \<^verbatim>\<open>catch\<close> only logs.
\<close>

definition cleanupWebRTCResources :: "Hook \<Rightarrow> Hook" where
  "cleanupWebRTCResources h =
    (let h1 = (case pcRef h of
                 Some pc \<Rightarrow> h\<lparr>closedPeerConnections := closedPeerConnections h @ [pc],
                              pcRef := None\<rparr>
               | None \<Rightarrow> h);
         h2 = (case localStreamRef h1 of
                 Some s \<Rightarrow> h1\<lparr>stoppedTracks := stoppedTracks h1 @ tracks s,
                             localStreamRef := None\<rparr>
               | None \<Rightarrow> h1);
         h3 = setCallState (\<lambda>prev. idleCallState) h2
     in h3\<lparr>rtcConfigRef := None, iceCandidateQueueRef := [],
           remoteDescriptionSetRef := False\<rparr>)"

section \<open>Local actions\<close>

text \<open>
  \<^verbatim>\<open>handleEndCall\<close> (lines 245-268): the REST call is made only with a truthy call id and
  token; whatever its outcome, the \<^verbatim>\<open>finally\<close> block runs the cleanup.
\<close>

definition handleEndCall :: "Hook \<Rightarrow> Hook \<times> Await option" where
  "handleEndCall h =
    (case (callId (callStateRef h), token h) of
       (Some cid, Some tok) \<Rightarrow>
         (if cid \<noteq> [] \<and> tok \<noteq> [] then (callApi (ApiEndCall tok cid) h, Some AwaitEndCall)
          else (cleanupWebRTCResources h, None))
     | _ \<Rightarrow> (cleanupWebRTCResources h, None))"

text \<open>The rest of \<^verbatim>\<open>handleEndCall\<close> after line 253; \<open>ok\<close> says whether \<^verbatim>\<open>endCall\<close> resolved.\<close>

definition handleEndCall_endCall :: "bool \<Rightarrow> Hook \<Rightarrow> Hook \<times> Await option" where
  "handleEndCall_endCall ok h = (cleanupWebRTCResources h, None)"

text \<open>
  \<^verbatim>\<open>pc.onconnectionstatechange\<close> (lines 131-144), with \<^verbatim>\<open>pc.connectionState\<close>: a failed
  connection ends the call through \<^verbatim>\<open>handleEndCallRef.current\<close>, which the effect of lines
  271-273 keeps equal to \<^verbatim>\<open>handleEndCall\<close>; the other states are only logged.
\<close>

definition onconnectionstatechange :: "string \<Rightarrow> Hook \<Rightarrow> Hook \<times> Await option" where
  "onconnectionstatechange connectionState h =
    (if connectionState = ''failed'' then handleEndCall h else (h, None))"

text \<open>
  \<^verbatim>\<open>initiateCallHandler\<close> (lines 276-337), up to \<^verbatim>\<open>await initiateCall\<close>. The guard is
  \<^verbatim>\<open>!token || !socket\<close>.
\<close>

definition initiateCallHandler :: "string \<Rightarrow> Hook \<Rightarrow> Hook \<times> Await option" where
  "initiateCallHandler rid h =
    (case token h of
       Some tok \<Rightarrow>
         (if tok \<noteq> [] \<and> socket h \<noteq> None then
            (callApi (ApiInitiateCall tok rid) (h\<lparr>isCallerRef := True\<rparr>),
             Some (AwaitInitiateCall rid))
          else (h, None))
     | None \<Rightarrow> (h, None))"

text \<open>The \<^verbatim>\<open>catch\<close> of \<^verbatim>\<open>initiateCallHandler\<close> (lines 331-334).\<close>

definition initiateCallHandler_catch :: "Hook \<Rightarrow> Hook \<times> Await option" where
  "initiateCallHandler_catch h = (setCallState (\<lambda>prev. prev\<lparr>status := Idle\<rparr>) h, None)"

text \<open>
  After \<^verbatim>\<open>await initiateCall\<close> (line 287): \<open>r\<close> is \<^verbatim>\<open>call.id\<close>, or \<open>None\<close> when the call threw.
  Runs up to the \<^verbatim>\<open>getUserMedia\<close> request of \<^verbatim>\<open>getLocalStream\<close>.
\<close>

definition initiateCallHandler_initiateCall ::
  "string \<Rightarrow> string option \<Rightarrow> Hook \<Rightarrow> Hook \<times> Await option" where
  "initiateCallHandler_initiateCall rid r h =
    (case r of
       None \<Rightarrow> initiateCallHandler_catch h
     | Some call_id \<Rightarrow>
         (requestUserMedia
            (setCallState (\<lambda>prev. prev\<lparr>callId := Some call_id, receiverId := Some rid,
                                        status := Ringing\<rparr>) h),
          Some (AwaitInitiateMedia call_id rid)))"

text \<open>
  Lines 309-318: the senders are read once, then every track of the stored stream that
  is not among them is added.
\<close>

definition ensureTracks :: "Hook \<Rightarrow> Hook" where
  "ensureTracks h =
    (case (pcRef h, localStreamRef h) of
       (Some pc, Some s) \<Rightarrow>
         (let snd0 = senders pc
          in h\<lparr>pcRef := Some (foldl (\<lambda>p t. if t \<in> set snd0 then p else addTrack t p)
                                  pc (tracks s))\<rparr>)
     | _ \<Rightarrow> h)"

text \<open>
  After \<^verbatim>\<open>await getLocalStream()\<close> (line 298): \<open>r\<close> is the stream, or \<open>None\<close> when the
  capture was refused. Runs up to \<^verbatim>\<open>await createOffer()\<close>.
\<close>

definition initiateCallHandler_getLocalStream ::
  "string \<Rightarrow> string \<Rightarrow> MediaStream option \<Rightarrow> Hook \<Rightarrow> Hook \<times> Await option" where
  "initiateCallHandler_getLocalStream call_id rid r h =
    (case r of
       None \<Rightarrow> initiateCallHandler_catch h
     | Some stream \<Rightarrow>
         (let h1 = getLocalStream_resolved stream h;
              h2 = initPeerConnection defaultRTCConfig h1;
              h3 = ensureTracks h2
          in case pcRef h3 of
               Some pc \<Rightarrow> (h3, Some (AwaitCreateOffer call_id rid))
             | None \<Rightarrow> (h3, None)))"

text \<open>
  After \<^verbatim>\<open>await createOffer()\<close> (line 323). \<^verbatim>\<open>pcRef.current\<close> is read again at line 325:
  when it is \<^verbatim>\<open>null\<close> by then, the call throws a TypeError into the \<^verbatim>\<open>catch\<close>.
\<close>

definition initiateCallHandler_createOffer ::
  "string \<Rightarrow> string \<Rightarrow> string option \<Rightarrow> Hook \<Rightarrow> Hook \<times> Await option" where
  "initiateCallHandler_createOffer call_id rid r h =
    (case r of
       None \<Rightarrow> initiateCallHandler_catch h
     | Some offer \<Rightarrow>
         (case pcRef h of
            None \<Rightarrow> initiateCallHandler_catch h
          | Some pc \<Rightarrow>
              (h\<lparr>pcRef := Some (pc\<lparr>localDescriptions := localDescriptions pc @ [offer]\<rparr>)\<rparr>,
               Some (AwaitSetLocalOffer call_id rid offer))))"

text \<open>After \<^verbatim>\<open>await setLocalDescription(offer)\<close> (line 325): the offer is sent.\<close>

definition initiateCallHandler_setLocalDescription ::
  "string \<Rightarrow> string \<Rightarrow> string \<Rightarrow> bool \<Rightarrow> Hook \<Rightarrow> Hook \<times> Await option" where
  "initiateCallHandler_setLocalDescription call_id rid offer ok h =
    (if ok then (socketEmit (EmitWebRTCOffer call_id offer rid) h, None)
     else initiateCallHandler_catch h)"

text \<open>
  \<^verbatim>\<open>answerCallHandler\<close> (lines 340-377), up to the \<^verbatim>\<open>getUserMedia\<close> request. Its \<^verbatim>\<open>catch\<close>
  (lines 372-374) only logs.
\<close>

definition answerCallHandler :: "string \<Rightarrow> Hook \<Rightarrow> Hook \<times> Await option" where
  "answerCallHandler cid h =
    (case token h of
       Some tok \<Rightarrow>
         (if tok \<noteq> [] \<and> socket h \<noteq> None then
            (requestUserMedia (h\<lparr>isCallerRef := False\<rparr>), Some (AwaitAnswerMedia tok cid))
          else (h, None))
     | None \<Rightarrow> (h, None))"

text \<open>After \<^verbatim>\<open>await getLocalStream()\<close> (line 351), up to \<^verbatim>\<open>await answerCall\<close>.\<close>

definition answerCallHandler_getLocalStream ::
  "string \<Rightarrow> string \<Rightarrow> MediaStream option \<Rightarrow> Hook \<Rightarrow> Hook \<times> Await option" where
  "answerCallHandler_getLocalStream tok cid r h =
    (case r of
       None \<Rightarrow> (h, None)
     | Some stream \<Rightarrow>
         (let h1 = getLocalStream_resolved stream h;
              config = (case rtcConfigRef h1 of Some c \<Rightarrow> c | None \<Rightarrow> defaultRTCConfig);
              h2 = initPeerConnection config h1
          in (callApi (ApiAnswerCall tok cid) h2, Some (AwaitAnswerCall cid))))"

text \<open>After \<^verbatim>\<open>await answerCall\<close> (line 361).\<close>

definition answerCallHandler_answerCall :: "string \<Rightarrow> bool \<Rightarrow> Hook \<Rightarrow> Hook \<times> Await option" where
  "answerCallHandler_answerCall cid ok h =
    (if ok then
       (setCallState (\<lambda>prev. prev\<lparr>callId := Some cid, status := Answered\<rparr>) h, None)
     else (h, None))"

text \<open>\<^verbatim>\<open>rejectCallHandler\<close> (lines 380-396), up to \<^verbatim>\<open>await rejectCall\<close>, and the rest.\<close>

definition rejectCallHandler :: "string \<Rightarrow> Hook \<Rightarrow> Hook \<times> Await option" where
  "rejectCallHandler cid h =
    (case token h of
       Some tok \<Rightarrow>
         (if tok \<noteq> [] then (callApi (ApiRejectCall tok cid) h, Some (AwaitRejectCall cid))
          else (h, None))
     | None \<Rightarrow> (h, None))"

definition rejectCallHandler_rejectCall :: "string \<Rightarrow> bool \<Rightarrow> Hook \<Rightarrow> Hook \<times> Await option" where
  "rejectCallHandler_rejectCall cid ok h =
    (if ok then (setCallState (\<lambda>prev. prev\<lparr>status := Idle, callId := None\<rparr>) h, None)
     else (h, None))"

section \<open>Remote signaling events (the listeners of lines 399-655)\<close>

definition handleCallIncoming ::
  "string \<Rightarrow> string \<Rightarrow> RTCConfiguration option \<Rightarrow> Hook \<Rightarrow> Hook" where
  "handleCallIncoming cid caller rtcConfig h =
    (let h1 = setCallState (\<lambda>prev. prev\<lparr>callId := Some cid, callerId := Some caller,
                                         status := Ringing\<rparr>) h
     in case rtcConfig of
          Some c \<Rightarrow> h1\<lparr>rtcConfigRef := Some c\<rparr>
        | None \<Rightarrow> h1)"

definition handleCallInitiated ::
  "string \<Rightarrow> string \<Rightarrow> RTCConfiguration option \<Rightarrow> Hook \<Rightarrow> Hook" where
  "handleCallInitiated cid rid rtcConfig h =
    (let h1 = setCallState (\<lambda>prev. prev\<lparr>callId := Some cid, receiverId := Some rid\<rparr>) h
     in case rtcConfig of
          Some c \<Rightarrow> initPeerConnection c (h1\<lparr>rtcConfigRef := Some c\<rparr>)
        | None \<Rightarrow> h1)"

definition handleCallAnswered :: "string \<Rightarrow> Hook \<Rightarrow> Hook" where
  "handleCallAnswered cid h =
    setCallState (\<lambda>prev. if callId prev = Some cid then prev\<lparr>status := Answered\<rparr> else prev) h"

definition handleCallConnected :: "string \<Rightarrow> Hook \<Rightarrow> Hook" where
  "handleCallConnected cid h = setCallState (\<lambda>prev. prev\<lparr>status := Connected\<rparr>) h"

definition handleCallRejected :: "string \<Rightarrow> Hook \<Rightarrow> Hook" where
  "handleCallRejected cid h = setCallState (\<lambda>prev. prev\<lparr>status := Idle, callId := None\<rparr>) h"

definition handleCallEnded :: "string \<Rightarrow> string \<Rightarrow> Hook \<Rightarrow> Hook" where
  "handleCallEnded cid endedBy h =
    (if callId (callStateRef h) \<noteq> Some cid then h else cleanupWebRTCResources h)"

definition handleCallError :: "string \<Rightarrow> Hook \<Rightarrow> Hook" where
  "handleCallError message h = setCallState (\<lambda>prev. prev\<lparr>status := Idle\<rparr>) h"

section \<open>The ICE candidate queue\<close>

text \<open>
  The loop of \<^verbatim>\<open>flushIceCandidateQueue\<close> (lines 485-495), from the test of its condition
  up to the next \<^verbatim>\<open>await\<close>: the head of the queue is shifted out and given to
  \<^verbatim>\<open>addIceCandidate\<close> of the current connection. The result says whether the loop is now
  suspended at line 489 (\<open>True\<close>) or has ended (\<open>False\<close>). With no connection the call at
  line 489 throws a TypeError before anything is awaited; the \<^verbatim>\<open>catch\<close> logs it and the
  loop goes on. Whether an awaited \<^verbatim>\<open>addIceCandidate\<close> resolves or rejects, the loop goes
  back to its condition, so resuming it is this function again.
\<close>

function flushIceCandidateQueue_loop :: "Hook \<Rightarrow> Hook \<times> bool" where
  "flushIceCandidateQueue_loop h =
    (case iceCandidateQueueRef h of
       [] \<Rightarrow> (h, False)
     | candidate # rest \<Rightarrow>
         (case pcRef h of
            Some pc \<Rightarrow>
              (h\<lparr>iceCandidateQueueRef := rest,
                 pcRef := Some (pc\<lparr>iceCandidates := iceCandidates pc @ [candidate]\<rparr>)\<rparr>, True)
          | None \<Rightarrow> flushIceCandidateQueue_loop (h\<lparr>iceCandidateQueueRef := rest\<rparr>)))"
  by pat_completeness auto
termination
  by (relation "measure (\<lambda>h. length (iceCandidateQueueRef h))") auto

text \<open>\<^verbatim>\<open>flushIceCandidateQueue\<close> (lines 482-496) up to its first \<^verbatim>\<open>await\<close>.\<close>

definition flushIceCandidateQueue :: "Hook \<Rightarrow> Hook \<times> bool" where
  "flushIceCandidateQueue h =
    (if pcRef h = None \<or> \<not> remoteDescriptionSetRef h then (h, False)
     else flushIceCandidateQueue_loop h)"

text \<open>
  \<^verbatim>\<open>handleICECandidate\<close> (lines 603-632). What follows its only \<^verbatim>\<open>await\<close> (line 627) is
  logging.
\<close>

definition handleICECandidate ::
  "string \<Rightarrow> string option \<Rightarrow> string \<Rightarrow> Hook \<Rightarrow> Hook \<times> Await option" where
  "handleICECandidate cid candidate senderId h =
    (case candidate of
       None \<Rightarrow> (h, None)
     | Some c \<Rightarrow>
         (case pcRef h of
            None \<Rightarrow> (h, None)
          | Some pc \<Rightarrow>
              (if \<not> remoteDescriptionSetRef h then
                 (h\<lparr>iceCandidateQueueRef := iceCandidateQueueRef h @ [c]\<rparr>, None)
               else
                 (h\<lparr>pcRef := Some (pc\<lparr>iceCandidates := iceCandidates pc @ [c]\<rparr>)\<rparr>,
                  Some AwaitAddIceCandidate))))"

definition handleICECandidate_addIceCandidate :: "bool \<Rightarrow> Hook \<Rightarrow> Hook \<times> Await option" where
  "handleICECandidate_addIceCandidate ok h = (h, None)"

section \<open>Offer and answer\<close>

text \<open>
  \<^verbatim>\<open>handleWebRTCOffer\<close> (lines 499-557). Its \<^verbatim>\<open>catch\<close> only logs. First the part from line
  521 to the \<^verbatim>\<open>await\<close> of line 523.
\<close>

definition handleWebRTCOffer_setRemote ::
  "string \<Rightarrow> string \<Rightarrow> string \<Rightarrow> Hook \<Rightarrow> Hook \<times> Await option" where
  "handleWebRTCOffer_setRemote cid offer caller h =
    (case pcRef h of
       Some pc \<Rightarrow>
         (h\<lparr>pcRef := Some (pc\<lparr>remoteDescriptions := remoteDescriptions pc @ [offer]\<rparr>)\<rparr>,
          Some (AwaitOfferSetRemote cid caller))
     | None \<Rightarrow> (h, None))"

text \<open>The handler up to its first \<^verbatim>\<open>await\<close> (line 517 or line 523).\<close>

definition handleWebRTCOffer ::
  "string \<Rightarrow> string \<Rightarrow> string \<Rightarrow> Hook \<Rightarrow> Hook \<times> Await option" where
  "handleWebRTCOffer cid offer caller h =
    (case pcRef h of
       None \<Rightarrow>
         (let config = (case rtcConfigRef h of Some c \<Rightarrow> c | None \<Rightarrow> defaultRTCConfig);
              h1 = initPeerConnection config h
          in if localStream (effectCallState h1) = None then
               (requestUserMedia h1, Some (AwaitOfferMedia cid offer caller))
             else handleWebRTCOffer_setRemote cid offer caller h1)
     | Some pc \<Rightarrow> handleWebRTCOffer_setRemote cid offer caller h)"

text \<open>After \<^verbatim>\<open>await getLocalStream()\<close> (line 517).\<close>

definition handleWebRTCOffer_getLocalStream ::
  "string \<Rightarrow> string \<Rightarrow> string \<Rightarrow> MediaStream option \<Rightarrow> Hook \<Rightarrow> Hook \<times> Await option" where
  "handleWebRTCOffer_getLocalStream cid offer caller r h =
    (case r of
       None \<Rightarrow> (h, None)
     | Some stream \<Rightarrow> handleWebRTCOffer_setRemote cid offer caller (getLocalStream_resolved stream h))"

text \<open>
  Lines 530-531, once the queue is flushed: \<^verbatim>\<open>pcRef.current\<close> is read again; when it is
  \<^verbatim>\<open>null\<close> the call throws into the \<^verbatim>\<open>catch\<close>.
\<close>

definition handleWebRTCOffer_flushed :: "string \<Rightarrow> string \<Rightarrow> Hook \<Rightarrow> Hook \<times> Await option" where
  "handleWebRTCOffer_flushed cid caller h =
    (case pcRef h of
       Some pc \<Rightarrow> (h, Some (AwaitCreateAnswer cid caller))
     | None \<Rightarrow> (h, None))"

text \<open>After \<^verbatim>\<open>await setRemoteDescription\<close> (line 523): set the flag, start the flush.\<close>

definition handleWebRTCOffer_setRemoteDescription ::
  "string \<Rightarrow> string \<Rightarrow> bool \<Rightarrow> Hook \<Rightarrow> Hook \<times> Await option" where
  "handleWebRTCOffer_setRemoteDescription cid caller ok h =
    (if ok then
       (case flushIceCandidateQueue (h\<lparr>remoteDescriptionSetRef := True\<rparr>) of
          (h1, True) \<Rightarrow> (h1, Some (AwaitOfferFlush cid caller))
        | (h1, False) \<Rightarrow> handleWebRTCOffer_flushed cid caller h1)
     else (h, None))"

text \<open>After the \<^verbatim>\<open>await\<close> inside the flush (line 489, called from line 528).\<close>

definition handleWebRTCOffer_flush ::
  "string \<Rightarrow> string \<Rightarrow> bool \<Rightarrow> Hook \<Rightarrow> Hook \<times> Await option" where
  "handleWebRTCOffer_flush cid caller ok h =
    (case flushIceCandidateQueue_loop h of
       (h1, True) \<Rightarrow> (h1, Some (AwaitOfferFlush cid caller))
     | (h1, False) \<Rightarrow> handleWebRTCOffer_flushed cid caller h1)"

text \<open>After \<^verbatim>\<open>await createAnswer()\<close> (line 531); \<open>r\<close> is the answer.\<close>

definition handleWebRTCOffer_createAnswer ::
  "string \<Rightarrow> string \<Rightarrow> string option \<Rightarrow> Hook \<Rightarrow> Hook \<times> Await option" where
  "handleWebRTCOffer_createAnswer cid caller r h =
    (case r of
       None \<Rightarrow> (h, None)
     | Some answer \<Rightarrow>
         (case pcRef h of
            None \<Rightarrow> (h, None)
          | Some pc \<Rightarrow>
              (h\<lparr>pcRef := Some (pc\<lparr>localDescriptions := localDescriptions pc @ [answer]\<rparr>)\<rparr>,
               Some (AwaitSetLocalAnswer cid caller answer))))"

text \<open>After \<^verbatim>\<open>await setLocalDescription(answer)\<close> (line 534).\<close>

definition handleWebRTCOffer_setLocalDescription ::
  "string \<Rightarrow> string \<Rightarrow> string \<Rightarrow> bool \<Rightarrow> Hook \<Rightarrow> Hook \<times> Await option" where
  "handleWebRTCOffer_setLocalDescription cid caller answer ok h =
    (if ok \<and> socket h \<noteq> None then
       (setCallState
          (\<lambda>prev. if callId prev = Some cid then prev\<lparr>status := Connected\<rparr> else prev)
          (socketEmit (EmitWebRTCAnswer cid answer caller) h), None)
     else (h, None))"

text \<open>\<^verbatim>\<open>handleWebRTCAnswer\<close> (lines 560-600), up to the \<^verbatim>\<open>await\<close> of line 580.\<close>

definition handleWebRTCAnswer ::
  "string \<Rightarrow> string \<Rightarrow> string \<Rightarrow> Hook \<Rightarrow> Hook \<times> Await option" where
  "handleWebRTCAnswer cid answer rid h =
    (if callId (callStateRef h) \<noteq> Some cid then (h, None)
     else
       (case pcRef h of
          Some pc \<Rightarrow>
            (h\<lparr>pcRef := Some (pc\<lparr>remoteDescriptions := remoteDescriptions pc @ [answer]\<rparr>)\<rparr>,
             Some (AwaitAnswerSetRemote cid))
        | None \<Rightarrow> (h, None)))"

text \<open>After \<^verbatim>\<open>await setRemoteDescription\<close> (line 580).\<close>

definition handleWebRTCAnswer_setRemoteDescription ::
  "string \<Rightarrow> bool \<Rightarrow> Hook \<Rightarrow> Hook \<times> Await option" where
  "handleWebRTCAnswer_setRemoteDescription cid ok h =
    (if ok then
       (case flushIceCandidateQueue
               (setCallState
                  (\<lambda>prev. if callId prev = Some cid then prev\<lparr>status := Connected\<rparr> else prev)
                  (h\<lparr>remoteDescriptionSetRef := True\<rparr>)) of
          (h1, True) \<Rightarrow> (h1, Some AwaitAnswerFlush)
        | (h1, False) \<Rightarrow> (h1, None))
     else (h, None))"

text \<open>After the \<^verbatim>\<open>await\<close> inside the flush (line 489, called from line 593).\<close>

definition handleWebRTCAnswer_flush :: "bool \<Rightarrow> Hook \<Rightarrow> Hook \<times> Await option" where
  "handleWebRTCAnswer_flush ok h =
    (case flushIceCandidateQueue_loop h of
       (h1, True) \<Rightarrow> (h1, Some AwaitAnswerFlush)
     | (h1, False) \<Rightarrow> (h1, None))"

text \<open>
  The listeners as they are registered on the socket (lines 641-650), one constructor
  per event of the relay.
\<close>

datatype RemoteEvent =
    CallIncoming string string "RTCConfiguration option"
  | CallInitiated string string "RTCConfiguration option"
  | CallAnswered string
  | CallConnected string
  | CallRejected string
  | CallEnded string string
  | CallWebRTCOffer string string string
  | CallWebRTCAnswer string string string
  | CallWebRTCICECandidate string "string option" string
  | CallError string

fun socketListener :: "RemoteEvent \<Rightarrow> Hook \<Rightarrow> Hook \<times> Await option" where
  "socketListener (CallIncoming cid caller cfg) h = (handleCallIncoming cid caller cfg h, None)"
| "socketListener (CallInitiated cid rid cfg) h = (handleCallInitiated cid rid cfg h, None)"
| "socketListener (CallAnswered cid) h = (handleCallAnswered cid h, None)"
| "socketListener (CallConnected cid) h = (handleCallConnected cid h, None)"
| "socketListener (CallRejected cid) h = (handleCallRejected cid h, None)"
| "socketListener (CallEnded cid endedBy) h = (handleCallEnded cid endedBy h, None)"
| "socketListener (CallWebRTCOffer cid offer caller) h = handleWebRTCOffer cid offer caller h"
| "socketListener (CallWebRTCAnswer cid answer rid) h = handleWebRTCAnswer cid answer rid h"
| "socketListener (CallWebRTCICECandidate cid candidate senderId) h =
     handleICECandidate cid candidate senderId h"
| "socketListener (CallError message) h = (handleCallError message h, None)"

section \<open>Handlers run through their awaits\<close>

text \<open>
  The functions of this section resume a handler over several awaits, with nothing else
  scheduled in between unless said otherwise.
\<close>

definition handleEndCall_run :: "bool \<Rightarrow> Hook \<Rightarrow> Hook" where
  "handleEndCall_run ok h =
    (case handleEndCall h of
       (h1, Some a) \<Rightarrow> fst (handleEndCall_endCall ok h1)
     | (h1, None) \<Rightarrow> h1)"

lemma flushIceCandidateQueue_loop_shorter:
  "flushIceCandidateQueue_loop h = (h1, True)
     \<Longrightarrow> length (iceCandidateQueueRef h1) < length (iceCandidateQueueRef h)"
proof (induction h rule: flushIceCandidateQueue_loop.induct)
  case (1 h)
  show ?case
  proof (cases "iceCandidateQueueRef h")
    case Nil
    with "1.prems" show ?thesis by simp
  next
    case (Cons c rest)
    show ?thesis
    proof (cases "pcRef h")
      case None
      with Cons "1.prems"
      have "flushIceCandidateQueue_loop (h\<lparr>iceCandidateQueueRef := rest\<rparr>) = (h1, True)"
        by simp
      from "1.IH" [OF Cons None this] Cons show ?thesis by simp
    next
      case (Some pc)
      with Cons "1.prems" show ?thesis by auto
    qed
  qed
qed

text \<open>The flush loop resumed until it ends.\<close>

function flushIceCandidateQueue_run :: "Hook \<Rightarrow> Hook" where
  "flushIceCandidateQueue_run h =
    (case flushIceCandidateQueue_loop h of
       (h1, True) \<Rightarrow> flushIceCandidateQueue_run h1
     | (h1, False) \<Rightarrow> h1)"
  by pat_completeness auto
termination
  apply (relation "measure (\<lambda>h. length (iceCandidateQueueRef h))")
   apply simp
  subgoal for h x1 x2
    using flushIceCandidateQueue_loop_shorter [of h x1] by simp
  done

text \<open>A run of candidate events for one call, each handled to its end.\<close>

fun handleICECandidates :: "string \<Rightarrow> string list \<Rightarrow> string \<Rightarrow> Hook \<Rightarrow> Hook" where
  "handleICECandidates cid [] senderId h = h"
| "handleICECandidates cid (c # cs) senderId h =
     handleICECandidates cid cs senderId (fst (handleICECandidate cid (Some c) senderId h))"

declare flushIceCandidateQueue_loop.simps [simp del]

declare flushIceCandidateQueue_run.simps [simp del]

text \<open>
  The flush loop, suspended at its await (line 489), with candidate events arriving
  while it is suspended: the candidates of the first list of \<open>dss\<close> arrive during this
  await, then the loop is resumed; those of the second list arrive during its next
  await, and so on. When \<open>dss\<close> is used up the loop is resumed to its end; when the loop
  ends first, what is left of \<open>dss\<close> arrives after it.
\<close>

fun flushIceCandidateQueue_resumed ::
  "string \<Rightarrow> string \<Rightarrow> string list list \<Rightarrow> Hook \<Rightarrow> Hook" where
  "flushIceCandidateQueue_resumed cid senderId [] h = flushIceCandidateQueue_run h"
| "flushIceCandidateQueue_resumed cid senderId (ds # dss) h =
     (case flushIceCandidateQueue_loop (handleICECandidates cid ds senderId h) of
        (h1, True) \<Rightarrow> flushIceCandidateQueue_resumed cid senderId dss h1
      | (h1, False) \<Rightarrow> handleICECandidates cid (concat dss) senderId h1)"

text \<open>
  The rest of \<^verbatim>\<open>handleWebRTCAnswer\<close> once \<^verbatim>\<open>setRemoteDescription\<close> has resolved (from line
  581), with the candidate events \<open>dss\<close> arriving during the awaits of the flush loop
  (none when \<open>dss\<close> is empty).
\<close>

definition handleWebRTCAnswer_resolved ::
  "string \<Rightarrow> string \<Rightarrow> string list list \<Rightarrow> Hook \<Rightarrow> Hook" where
  "handleWebRTCAnswer_resolved cid senderId dss h =
    (case handleWebRTCAnswer_setRemoteDescription cid True h of
       (h1, Some a) \<Rightarrow> flushIceCandidateQueue_resumed cid senderId dss h1
     | (h1, None) \<Rightarrow> handleICECandidates cid (concat dss) senderId h1)"

text \<open>
  The same for \<^verbatim>\<open>handleWebRTCOffer\<close> (from line 524). Once the flush has ended the handler
  goes on to \<^verbatim>\<open>createAnswer\<close> (\<open>handleWebRTCOffer_flushed\<close>), which changes nothing in the
  state before its await.
\<close>

definition handleWebRTCOffer_resolved ::
  "string \<Rightarrow> string \<Rightarrow> string \<Rightarrow> string list list \<Rightarrow> Hook \<Rightarrow> Hook" where
  "handleWebRTCOffer_resolved cid caller senderId dss h =
    (case handleWebRTCOffer_setRemoteDescription cid caller True h of
       (h1, Some (AwaitOfferFlush x y)) \<Rightarrow> flushIceCandidateQueue_resumed cid senderId dss h1
     | (h1, r) \<Rightarrow> handleICECandidates cid (concat dss) senderId h1)"

text \<open>
  The order in which such a run gives candidates to the connection, \<open>q\<close> being the queue
  when the flush starts: each queued candidate in queue order, the arrivals of an await
  right after the candidate whose application is awaited.
\<close>

fun weave :: "'a list \<Rightarrow> 'a list list \<Rightarrow> 'a list" where
  "weave q [] = q"
| "weave [] (ds # dss) = concat (ds # dss)"
| "weave (c # q) (ds # dss) = c # ds @ weave q dss"

text \<open>
  \<^verbatim>\<open>answerCallHandler\<close> from the call to its return, with nothing else scheduled in
  between: \<open>media\<close> is the outcome of \<^verbatim>\<open>getLocalStream\<close> and \<open>ok\<close> that of \<^verbatim>\<open>answerCall\<close>.
\<close>

definition answerCallHandler_run :: "string \<Rightarrow> MediaStream option \<Rightarrow> bool \<Rightarrow> Hook \<Rightarrow> Hook" where
  "answerCallHandler_run cid media ok h =
    (case answerCallHandler cid h of
       (h1, Some (AwaitAnswerMedia tok c)) \<Rightarrow>
         (case answerCallHandler_getLocalStream tok c media h1 of
            (h2, Some b) \<Rightarrow> fst (answerCallHandler_answerCall c ok h2)
          | (h2, None) \<Rightarrow> h2)
     | (h1, r) \<Rightarrow> h1)"

section \<open>Properties of a state, and states reached by the handlers\<close>

text \<open>
  What the cleanup reaches, with respect to the state \<open>before\<close> it: the status is idle,
  the call id is cleared, no capture stream is referenced any more, and \<^verbatim>\<open>stop()\<close> has been
  called on every track of the stream that was referenced. It says nothing of a
  stream whose reference was replaced earlier.
\<close>

definition referencedStreamReleased :: "Hook \<Rightarrow> Hook \<Rightarrow> bool" where
  "referencedStreamReleased before after =
    (status (callState after) = Idle \<and> callId (callState after) = None
     \<and> localStream (callState after) = None \<and> localStreamRef after = None
     \<and> (case localStreamRef before of
           Some s \<Rightarrow> set (tracks s) \<subseteq> set (stoppedTracks after)
         | None \<Rightarrow> True))"

text \<open>
  Four states used below, all reached from a freshly mounted hook with a token and a
  connected socket. \<open>initiateAwaitingMedia\<close>: the user has called \<^verbatim>\<open>initiateCall("B")\<close>, the
  REST call has returned the call \<^verbatim>\<open>c1\<close>, and the handler waits for the microphone.
  \<open>callerRinging\<close>: the microphone was then granted, the connection is built, and the
  handler waits for \<^verbatim>\<open>createOffer\<close>. \<open>endedAwaitingMedia\<close>: instead, the user has ended the
  call while the handler was waiting for the microphone. \<open>receiverRinging\<close>: the event
  \<^verbatim>\<open>call:incoming\<close> of the call \<^verbatim>\<open>c1\<close> from \<^verbatim>\<open>A\<close> has arrived.
\<close>

definition initiateAwaitingMedia :: Hook where
  "initiateAwaitingMedia =
    render (fst (initiateCallHandler_initiateCall ''B'' (Some ''c1'')
      (fst (initiateCallHandler ''B'' (initialHook (Some ''tok'') (Some True))))))"

definition callerRinging :: Hook where
  "callerRinging =
    render (fst (initiateCallHandler_getLocalStream ''c1'' ''B''
                   (Some \<lparr>streamId = 7, tracks = [3]\<rparr>) initiateAwaitingMedia))"

definition endedAwaitingMedia :: Hook where
  "endedAwaitingMedia = render (handleEndCall_run True initiateAwaitingMedia)"

definition receiverRinging :: Hook where
  "receiverRinging =
    render (handleCallIncoming ''c1'' ''A'' (Some [''turn:relay''])
              (initialHook (Some ''tok'') (Some True)))"

text \<open>
  Three states of the receiver after \<open>receiverRinging\<close>. \<open>receiverOfferMedia\<close>: the offer
  of the caller has arrived while the call was ringing; there was no connection, so the
  handler built one and asked for the microphone, which was granted with the stream 7
  (track 3). \<open>receiverAnswered\<close>: the user has then answered; \<^verbatim>\<open>answerCallHandler\<close> asked for
  the microphone again and was granted the stream 8 (track 4), and the REST call
  resolved. \<open>receiverEnded\<close>: the user has then ended the call, and the REST call resolved.
\<close>

definition receiverOfferMedia :: Hook where
  "receiverOfferMedia =
    render (fst (handleWebRTCOffer_getLocalStream ''c1'' ''sdp'' ''A''
                   (Some \<lparr>streamId = 7, tracks = [3]\<rparr>)
      (fst (socketListener (CallWebRTCOffer ''c1'' ''sdp'' ''A'') receiverRinging))))"

definition receiverAnswered :: Hook where
  "receiverAnswered =
    render (answerCallHandler_run ''c1'' (Some \<lparr>streamId = 8, tracks = [4]\<rparr>) True
              receiverOfferMedia)"

definition receiverEnded :: Hook where
  "receiverEnded = render (handleEndCall_run True receiverAnswered)"

text \<open>
  Three states of the caller after \<open>callerRinging\<close>. \<open>callerQueued\<close>: two candidates of the
  peer have arrived. \<open>callerRebuilt\<close>: the event \<^verbatim>\<open>call:initiated\<close> of the same call has then
  arrived with a configuration. \<open>callerRebuiltConnected\<close>: the answer of the peer has then
  arrived and its description has been applied.
\<close>

definition callerQueued :: Hook where
  "callerQueued = handleICECandidates ''c1'' [''k1'', ''k2''] ''B'' callerRinging"

definition callerRebuilt :: Hook where
  "callerRebuilt =
    render (fst (socketListener (CallInitiated ''c1'' ''B'' (Some [''turn:relay''])) callerQueued))"

definition callerRebuiltConnected :: Hook where
  "callerRebuiltConnected =
    handleWebRTCAnswer_resolved ''c1'' ''B'' []
      (fst (handleWebRTCAnswer ''c1'' ''sdp'' ''B'' callerRebuilt))"

section \<open>Auxiliary facts\<close>

lemma initiateAwaitingMedia_state:
  "initiateAwaitingMedia =
    \<lparr>token = Some ''tok'', socket = Some True,
     callState = \<lparr>callId = Some ''c1'', callerId = None, receiverId = Some ''B'',
                   status = Ringing, remoteStream = None, localStream = None\<rparr>,
     callStateRef = \<lparr>callId = Some ''c1'', callerId = None, receiverId = Some ''B'',
                   status = Ringing, remoteStream = None, localStream = None\<rparr>,
     effectCallState = idleCallState,
     pcRef = None, localStreamRef = None, isCallerRef = True,
     rtcConfigRef = None, iceCandidateQueueRef = [], remoteDescriptionSetRef = False,
     stoppedTracks = [], closedPeerConnections = [], mediaRequests = 1,
     apiCalls = [ApiInitiateCall ''tok'' ''B''], signals = []\<rparr>"
  by (simp add: initiateAwaitingMedia_def initialHook_def initiateCallHandler_def callApi_def
        initiateCallHandler_initiateCall_def requestUserMedia_def setCallState_def render_def
        idleCallState_def)

lemma callerRinging_state:
  "callerRinging =
    \<lparr>token = Some ''tok'', socket = Some True,
     callState = \<lparr>callId = Some ''c1'', callerId = None, receiverId = Some ''B'',
                   status = Ringing, remoteStream = None,
                   localStream = Some \<lparr>streamId = 7, tracks = [3]\<rparr>\<rparr>,
     callStateRef = \<lparr>callId = Some ''c1'', callerId = None, receiverId = Some ''B'',
                   status = Ringing, remoteStream = None,
                   localStream = Some \<lparr>streamId = 7, tracks = [3]\<rparr>\<rparr>,
     effectCallState = idleCallState,
     pcRef = Some \<lparr>configuration = defaultRTCConfig, senders = [3], remoteDescriptions = [],
                    localDescriptions = [], iceCandidates = []\<rparr>,
     localStreamRef = Some \<lparr>streamId = 7, tracks = [3]\<rparr>, isCallerRef = True,
     rtcConfigRef = None, iceCandidateQueueRef = [], remoteDescriptionSetRef = False,
     stoppedTracks = [], closedPeerConnections = [], mediaRequests = 1,
     apiCalls = [ApiInitiateCall ''tok'' ''B''], signals = []\<rparr>"
  by (simp add: callerRinging_def initiateAwaitingMedia_state render_def setCallState_def
        initiateCallHandler_getLocalStream_def getLocalStream_resolved_def
        initPeerConnection_def ensureTracks_def addTrack_def Let_def)

lemma endedAwaitingMedia_state:
  "endedAwaitingMedia =
    \<lparr>token = Some ''tok'', socket = Some True,
     callState = idleCallState, callStateRef = idleCallState,
     effectCallState = idleCallState,
     pcRef = None, localStreamRef = None, isCallerRef = True,
     rtcConfigRef = None, iceCandidateQueueRef = [], remoteDescriptionSetRef = False,
     stoppedTracks = [], closedPeerConnections = [], mediaRequests = 1,
     apiCalls = [ApiInitiateCall ''tok'' ''B'', ApiEndCall ''tok'' ''c1''], signals = []\<rparr>"
  by (simp add: endedAwaitingMedia_def initiateAwaitingMedia_state handleEndCall_run_def
        handleEndCall_def handleEndCall_endCall_def callApi_def cleanupWebRTCResources_def
        setCallState_def render_def Let_def)

lemma receiverRinging_state:
  "receiverRinging =
    \<lparr>token = Some ''tok'', socket = Some True,
     callState = \<lparr>callId = Some ''c1'', callerId = Some ''A'', receiverId = None,
                   status = Ringing, remoteStream = None, localStream = None\<rparr>,
     callStateRef = \<lparr>callId = Some ''c1'', callerId = Some ''A'', receiverId = None,
                   status = Ringing, remoteStream = None, localStream = None\<rparr>,
     effectCallState = idleCallState,
     pcRef = None, localStreamRef = None, isCallerRef = False,
     rtcConfigRef = Some [''turn:relay''], iceCandidateQueueRef = [],
     remoteDescriptionSetRef = False,
     stoppedTracks = [], closedPeerConnections = [], mediaRequests = 0,
     apiCalls = [], signals = []\<rparr>"
  by (simp add: receiverRinging_def initialHook_def handleCallIncoming_def setCallState_def
        render_def idleCallState_def Let_def)

lemma stale_getLocalStream_state:
  "initiateCallHandler_getLocalStream ''c1'' ''B''
      (Some \<lparr>streamId = 7, tracks = [3]\<rparr>) endedAwaitingMedia =
    (\<lparr>token = Some ''tok'', socket = Some True,
      callState = idleCallState\<lparr>localStream := Some \<lparr>streamId = 7, tracks = [3]\<rparr>\<rparr>,
      callStateRef = idleCallState,
      effectCallState = idleCallState,
      pcRef = Some \<lparr>configuration = defaultRTCConfig, senders = [3], remoteDescriptions = [],
                     localDescriptions = [], iceCandidates = []\<rparr>,
      localStreamRef = Some \<lparr>streamId = 7, tracks = [3]\<rparr>, isCallerRef = True,
      rtcConfigRef = None, iceCandidateQueueRef = [], remoteDescriptionSetRef = False,
      stoppedTracks = [], closedPeerConnections = [], mediaRequests = 1,
      apiCalls = [ApiInitiateCall ''tok'' ''B'', ApiEndCall ''tok'' ''c1''], signals = []\<rparr>,
     Some (AwaitCreateOffer ''c1'' ''B''))"
  by (simp add: endedAwaitingMedia_state setCallState_def
        initiateCallHandler_getLocalStream_def getLocalStream_resolved_def
        initPeerConnection_def ensureTracks_def addTrack_def Let_def)

lemma cleanup_referencedStreamReleased: "referencedStreamReleased h (cleanupWebRTCResources h)"
  by (cases h) (simp add: referencedStreamReleased_def cleanupWebRTCResources_def setCallState_def idleCallState_def Let_def split: option.splits)

lemma cleanup_idem: "cleanupWebRTCResources (render (cleanupWebRTCResources h)) = render (cleanupWebRTCResources h)"
  by (cases h) (simp add: render_def cleanupWebRTCResources_def setCallState_def idleCallState_def Let_def split: option.splits)

lemma callApi_referencedStreamReleased: "referencedStreamReleased (callApi c h) h' = referencedStreamReleased h h'"
  by (simp add: referencedStreamReleased_def callApi_def)

lemma handleICECandidates_queued:
  "pcRef h = Some pc \<Longrightarrow> \<not> remoteDescriptionSetRef h \<Longrightarrow>
   handleICECandidates cid cs senderId h =
     h\<lparr>iceCandidateQueueRef := iceCandidateQueueRef h @ cs\<rparr>"
  by (induction cs arbitrary: h) (simp_all add: handleICECandidate_def)

lemma handleICECandidate_direct:
  "pcRef h = Some pc \<Longrightarrow> remoteDescriptionSetRef h \<Longrightarrow>
   fst (handleICECandidate cid (Some c) senderId h) =
     h\<lparr>pcRef := Some (pc\<lparr>iceCandidates := iceCandidates pc @ [c]\<rparr>)\<rparr>"
  by (cases h) (simp add: handleICECandidate_def)

lemma handleICECandidates_direct:
  "pcRef h = Some pc \<Longrightarrow> remoteDescriptionSetRef h \<Longrightarrow>
   handleICECandidates cid cs senderId h =
     h\<lparr>pcRef := Some (pc\<lparr>iceCandidates := iceCandidates pc @ cs\<rparr>)\<rparr>"
proof (induction cs arbitrary: h pc)
  case Nil
  then show ?case by (cases h) simp
next
  case (Cons c cs)
  let ?pc1 = "pc\<lparr>iceCandidates := iceCandidates pc @ [c]\<rparr>"
  let ?h1 = "h\<lparr>pcRef := Some ?pc1\<rparr>"
  have one: "fst (handleICECandidate cid (Some c) senderId h) = ?h1"
    using Cons.prems by (rule handleICECandidate_direct)
  have "handleICECandidates cid cs senderId ?h1 =
      ?h1\<lparr>pcRef := Some (?pc1\<lparr>iceCandidates := iceCandidates ?pc1 @ cs\<rparr>)\<rparr>"
    by (rule Cons.IH) (simp_all add: Cons.prems(2))
  then show ?case by (simp add: one)
qed

lemma flushIceCandidateQueue_run_applies:
  "pcRef h = Some pc \<Longrightarrow>
   flushIceCandidateQueue_run h =
     h\<lparr>iceCandidateQueueRef := [],
       pcRef := Some (pc\<lparr>iceCandidates := iceCandidates pc @ iceCandidateQueueRef h\<rparr>)\<rparr>"
proof (induction "iceCandidateQueueRef h" arbitrary: h pc)
  case Nil
  have "flushIceCandidateQueue_loop h = (h, False)"
    using Nil(1) [symmetric] by (subst flushIceCandidateQueue_loop.simps) simp
  then have "flushIceCandidateQueue_run h = h"
    by (subst flushIceCandidateQueue_run.simps) simp
  moreover have "h\<lparr>iceCandidateQueueRef := [],
       pcRef := Some (pc\<lparr>iceCandidates := iceCandidates pc @ iceCandidateQueueRef h\<rparr>)\<rparr> = h"
    using Nil by (cases h) simp
  ultimately show ?case by simp
next
  case (Cons c rest)
  let ?pc1 = "pc\<lparr>iceCandidates := iceCandidates pc @ [c]\<rparr>"
  let ?h1 = "h\<lparr>iceCandidateQueueRef := rest, pcRef := Some ?pc1\<rparr>"
  have q: "iceCandidateQueueRef h = c # rest" using Cons.hyps(2) by simp
  have step: "flushIceCandidateQueue_loop h = (?h1, True)"
    using q Cons.prems by (subst flushIceCandidateQueue_loop.simps) (cases h, simp)
  have "flushIceCandidateQueue_run h = flushIceCandidateQueue_run ?h1"
    by (subst flushIceCandidateQueue_run.simps) (simp add: step)
  also have "\<dots> = ?h1\<lparr>iceCandidateQueueRef := [],
      pcRef := Some (?pc1\<lparr>iceCandidates := iceCandidates ?pc1 @ iceCandidateQueueRef ?h1\<rparr>)\<rparr>"
    by (rule Cons.hyps(1)) simp_all
  also have "\<dots> = h\<lparr>iceCandidateQueueRef := [],
       pcRef := Some (pc\<lparr>iceCandidates := iceCandidates pc @ iceCandidateQueueRef h\<rparr>)\<rparr>"
    by (simp add: q)
  finally show ?case .
qed

text \<open>Starting the flush and resuming it to its end is the whole loop.\<close>

lemma flush_started_then_run:
  "pcRef h = Some pc \<Longrightarrow> remoteDescriptionSetRef h \<Longrightarrow>
   (case flushIceCandidateQueue h of
      (h1, True) \<Rightarrow> flushIceCandidateQueue_run h1
    | (h1, False) \<Rightarrow> h1) = flushIceCandidateQueue_run h"
  by (subst (2) flushIceCandidateQueue_run.simps) (simp add: flushIceCandidateQueue_def)

lemma handleWebRTCAnswer_started:
  "pcRef h = Some pc \<Longrightarrow> callId (callStateRef h) = Some cid \<Longrightarrow>
   handleWebRTCAnswer cid answer rid h =
     (h\<lparr>pcRef := Some (pc\<lparr>remoteDescriptions := remoteDescriptions pc @ [answer]\<rparr>)\<rparr>,
      Some (AwaitAnswerSetRemote cid))"
  by (cases h) (simp add: handleWebRTCAnswer_def)

lemma handleWebRTCOffer_started:
  "pcRef h = Some pc \<Longrightarrow>
   handleWebRTCOffer cid offer caller h =
     (h\<lparr>pcRef := Some (pc\<lparr>remoteDescriptions := remoteDescriptions pc @ [offer]\<rparr>)\<rparr>,
      Some (AwaitOfferSetRemote cid caller))"
  by (cases h) (simp add: handleWebRTCOffer_def handleWebRTCOffer_setRemote_def)

lemma weave_Nil: "weave [] dss = concat dss"
  by (cases dss) simp_all

lemma flushIceCandidateQueue_resumed_weaves:
  "pcRef h = Some pc \<Longrightarrow> remoteDescriptionSetRef h \<Longrightarrow>
   flushIceCandidateQueue_resumed cid senderId dss h =
     h\<lparr>iceCandidateQueueRef := [],
       pcRef := Some (pc\<lparr>iceCandidates := iceCandidates pc @
                 (case dss of [] \<Rightarrow> iceCandidateQueueRef h
                  | ds # dss' \<Rightarrow> ds @ weave (iceCandidateQueueRef h) dss')\<rparr>)\<rparr>"
proof (induction dss arbitrary: h pc)
  case Nil
  then show ?case by (simp add: flushIceCandidateQueue_run_applies)
next
  case (Cons ds dss)
  let ?pc0 = "pc\<lparr>iceCandidates := iceCandidates pc @ ds\<rparr>"
  let ?h0 = "h\<lparr>pcRef := Some ?pc0\<rparr>"
  have arr: "handleICECandidates cid ds senderId h = ?h0"
    using Cons.prems by (rule handleICECandidates_direct)
  show ?case
  proof (cases "iceCandidateQueueRef h")
    case Nil
    have loop: "flushIceCandidateQueue_loop ?h0 = (?h0, False)"
      using Nil by (subst flushIceCandidateQueue_loop.simps) simp
    have rest: "handleICECandidates cid (concat dss) senderId ?h0 =
        ?h0\<lparr>pcRef := Some (?pc0\<lparr>iceCandidates := iceCandidates ?pc0 @ concat dss\<rparr>)\<rparr>"
      by (rule handleICECandidates_direct) (simp_all add: Cons.prems(2))
    have "h\<lparr>iceCandidateQueueRef := []\<rparr> = h"
      using Nil by (cases h) simp
    then have "h\<lparr>iceCandidateQueueRef := [],
        pcRef := Some (pc\<lparr>iceCandidates := iceCandidates pc @ ds @ concat dss\<rparr>)\<rparr>
      = h\<lparr>pcRef := Some (pc\<lparr>iceCandidates := iceCandidates pc @ ds @ concat dss\<rparr>)\<rparr>"
      by (cases h) simp
    then show ?thesis
      using Nil by (simp add: arr loop rest weave_Nil)
  next
    case (Cons c rest)
    let ?pc1 = "?pc0\<lparr>iceCandidates := iceCandidates ?pc0 @ [c]\<rparr>"
    let ?h1 = "?h0\<lparr>iceCandidateQueueRef := rest, pcRef := Some ?pc1\<rparr>"
    have loop: "flushIceCandidateQueue_loop ?h0 = (?h1, True)"
      using Cons by (subst flushIceCandidateQueue_loop.simps) simp
    have ih: "flushIceCandidateQueue_resumed cid senderId dss ?h1 =
        ?h1\<lparr>iceCandidateQueueRef := [],
           pcRef := Some (?pc1\<lparr>iceCandidates := iceCandidates ?pc1 @
                 (case dss of [] \<Rightarrow> iceCandidateQueueRef ?h1
                  | ds # dss' \<Rightarrow> ds @ weave (iceCandidateQueueRef ?h1) dss')\<rparr>)\<rparr>"
      by (rule Cons.IH) (simp_all add: Cons.prems(2))
    have "flushIceCandidateQueue_resumed cid senderId (ds # dss) h =
        flushIceCandidateQueue_resumed cid senderId dss ?h1"
      by (simp add: arr loop)
    also note ih
    also have "?h1\<lparr>iceCandidateQueueRef := [],
           pcRef := Some (?pc1\<lparr>iceCandidates := iceCandidates ?pc1 @
                 (case dss of [] \<Rightarrow> iceCandidateQueueRef ?h1
                  | ds # dss' \<Rightarrow> ds @ weave (iceCandidateQueueRef ?h1) dss')\<rparr>)\<rparr> =
        h\<lparr>iceCandidateQueueRef := [],
          pcRef := Some (pc\<lparr>iceCandidates := iceCandidates pc @
                 (case ds # dss of [] \<Rightarrow> iceCandidateQueueRef h
                  | ds # dss' \<Rightarrow> ds @ weave (iceCandidateQueueRef h) dss')\<rparr>)\<rparr>"
      using Cons by (cases dss) simp_all
    finally show ?thesis .
  qed
qed

lemma handleWebRTCAnswer_resolved_flushes:
  assumes "pcRef h = Some pc"
  shows "handleWebRTCAnswer_resolved cid senderId dss h =
    (setCallState (\<lambda>prev. if callId prev = Some cid then prev\<lparr>status := Connected\<rparr> else prev) h)
      \<lparr>remoteDescriptionSetRef := True, iceCandidateQueueRef := [],
       pcRef := Some (pc\<lparr>iceCandidates := iceCandidates pc @ weave (iceCandidateQueueRef h) dss\<rparr>)\<rparr>"
proof -
  let ?h2 = "setCallState (\<lambda>prev. if callId prev = Some cid then prev\<lparr>status := Connected\<rparr> else prev)
         (h\<lparr>remoteDescriptionSetRef := True\<rparr>)"
  have pc2: "pcRef ?h2 = Some pc" and flag2: "remoteDescriptionSetRef ?h2"
    and q2: "iceCandidateQueueRef ?h2 = iceCandidateQueueRef h"
    using assms by (simp_all add: setCallState_def)
  have fl: "flushIceCandidateQueue ?h2 = flushIceCandidateQueue_loop ?h2"
    using pc2 flag2 by (simp add: flushIceCandidateQueue_def)
  show ?thesis
  proof (cases "iceCandidateQueueRef h")
    case Nil
    have loop: "flushIceCandidateQueue_loop ?h2 = (?h2, False)"
      using Nil q2 by (subst flushIceCandidateQueue_loop.simps) simp
    have seg: "handleWebRTCAnswer_setRemoteDescription cid True h = (?h2, None)"
      using fl loop by (simp add: handleWebRTCAnswer_setRemoteDescription_def)
    have arr: "handleICECandidates cid (concat dss) senderId ?h2 =
        ?h2\<lparr>pcRef := Some (pc\<lparr>iceCandidates := iceCandidates pc @ concat dss\<rparr>)\<rparr>"
      using pc2 flag2 by (rule handleICECandidates_direct)
    have res: "handleWebRTCAnswer_resolved cid senderId dss h =
        ?h2\<lparr>pcRef := Some (pc\<lparr>iceCandidates := iceCandidates pc @ concat dss\<rparr>)\<rparr>"
      by (simp add: handleWebRTCAnswer_resolved_def seg arr)
    have "?h2\<lparr>pcRef := Some (pc\<lparr>iceCandidates := iceCandidates pc @ concat dss\<rparr>)\<rparr> =
      (setCallState (\<lambda>prev. if callId prev = Some cid then prev\<lparr>status := Connected\<rparr> else prev) h)
      \<lparr>remoteDescriptionSetRef := True, iceCandidateQueueRef := [],
       pcRef := Some (pc\<lparr>iceCandidates := iceCandidates pc @ weave (iceCandidateQueueRef h) dss\<rparr>)\<rparr>"
      using Nil by (cases h) (simp add: weave_Nil setCallState_def)
    with res show ?thesis by simp
  next
    case (Cons c rest)
    let ?pc1 = "pc\<lparr>iceCandidates := iceCandidates pc @ [c]\<rparr>"
    let ?h3 = "?h2\<lparr>iceCandidateQueueRef := rest, pcRef := Some ?pc1\<rparr>"
    have loop: "flushIceCandidateQueue_loop ?h2 = (?h3, True)"
      using Cons q2 pc2 by (subst flushIceCandidateQueue_loop.simps) (cases h, simp add: setCallState_def)
    have seg: "handleWebRTCAnswer_setRemoteDescription cid True h = (?h3, Some AwaitAnswerFlush)"
      using fl loop by (simp add: handleWebRTCAnswer_setRemoteDescription_def)
    have res: "flushIceCandidateQueue_resumed cid senderId dss ?h3 =
        ?h3\<lparr>iceCandidateQueueRef := [],
           pcRef := Some (?pc1\<lparr>iceCandidates := iceCandidates ?pc1 @
                 (case dss of [] \<Rightarrow> iceCandidateQueueRef ?h3
                  | ds # dss' \<Rightarrow> ds @ weave (iceCandidateQueueRef ?h3) dss')\<rparr>)\<rparr>"
      by (rule flushIceCandidateQueue_resumed_weaves) (simp_all add: setCallState_def)
    have "handleWebRTCAnswer_resolved cid senderId dss h =
        flushIceCandidateQueue_resumed cid senderId dss ?h3"
      by (simp add: handleWebRTCAnswer_resolved_def seg)
    also note res
    also have "?h3\<lparr>iceCandidateQueueRef := [],
           pcRef := Some (?pc1\<lparr>iceCandidates := iceCandidates ?pc1 @
                 (case dss of [] \<Rightarrow> iceCandidateQueueRef ?h3
                  | ds # dss' \<Rightarrow> ds @ weave (iceCandidateQueueRef ?h3) dss')\<rparr>)\<rparr> =
      (setCallState (\<lambda>prev. if callId prev = Some cid then prev\<lparr>status := Connected\<rparr> else prev) h)
      \<lparr>remoteDescriptionSetRef := True, iceCandidateQueueRef := [],
       pcRef := Some (pc\<lparr>iceCandidates := iceCandidates pc @ weave (iceCandidateQueueRef h) dss\<rparr>)\<rparr>"
      using Cons by (cases dss) (simp_all add: setCallState_def)
    finally show ?thesis .
  qed
qed

lemma handleWebRTCOffer_resolved_flushes:
  assumes "pcRef h = Some pc"
  shows "handleWebRTCOffer_resolved cid caller senderId dss h =
    h\<lparr>remoteDescriptionSetRef := True, iceCandidateQueueRef := [],
      pcRef := Some (pc\<lparr>iceCandidates := iceCandidates pc @ weave (iceCandidateQueueRef h) dss\<rparr>)\<rparr>"
proof -
  let ?h2 = "h\<lparr>remoteDescriptionSetRef := True\<rparr>"
  have pc2: "pcRef ?h2 = Some pc" and flag2: "remoteDescriptionSetRef ?h2"
    using assms by simp_all
  have fl: "flushIceCandidateQueue ?h2 = flushIceCandidateQueue_loop ?h2"
    using pc2 flag2 by (simp add: flushIceCandidateQueue_def)
  show ?thesis
  proof (cases "iceCandidateQueueRef h")
    case Nil
    have loop: "flushIceCandidateQueue_loop ?h2 = (?h2, False)"
      using Nil by (subst flushIceCandidateQueue_loop.simps) simp
    have seg: "handleWebRTCOffer_setRemoteDescription cid caller True h =
        (?h2, Some (AwaitCreateAnswer cid caller))"
      using fl loop pc2
      by (simp add: handleWebRTCOffer_setRemoteDescription_def handleWebRTCOffer_flushed_def)
    have arr: "handleICECandidates cid (concat dss) senderId ?h2 =
        ?h2\<lparr>pcRef := Some (pc\<lparr>iceCandidates := iceCandidates pc @ concat dss\<rparr>)\<rparr>"
      using pc2 flag2 by (rule handleICECandidates_direct)
    have res: "handleWebRTCOffer_resolved cid caller senderId dss h =
        ?h2\<lparr>pcRef := Some (pc\<lparr>iceCandidates := iceCandidates pc @ concat dss\<rparr>)\<rparr>"
      by (simp add: handleWebRTCOffer_resolved_def seg arr)
    have "?h2\<lparr>pcRef := Some (pc\<lparr>iceCandidates := iceCandidates pc @ concat dss\<rparr>)\<rparr> =
      h\<lparr>remoteDescriptionSetRef := True, iceCandidateQueueRef := [],
        pcRef := Some (pc\<lparr>iceCandidates := iceCandidates pc @ weave (iceCandidateQueueRef h) dss\<rparr>)\<rparr>"
      using Nil by (cases h) (simp add: weave_Nil)
    with res show ?thesis by simp
  next
    case (Cons c rest)
    let ?pc1 = "pc\<lparr>iceCandidates := iceCandidates pc @ [c]\<rparr>"
    let ?h3 = "?h2\<lparr>iceCandidateQueueRef := rest, pcRef := Some ?pc1\<rparr>"
    have loop: "flushIceCandidateQueue_loop ?h2 = (?h3, True)"
      using Cons pc2 by (subst flushIceCandidateQueue_loop.simps) (cases h, simp)
    have seg: "handleWebRTCOffer_setRemoteDescription cid caller True h =
        (?h3, Some (AwaitOfferFlush cid caller))"
      using fl loop by (simp add: handleWebRTCOffer_setRemoteDescription_def)
    have res: "flushIceCandidateQueue_resumed cid senderId dss ?h3 =
        ?h3\<lparr>iceCandidateQueueRef := [],
           pcRef := Some (?pc1\<lparr>iceCandidates := iceCandidates ?pc1 @
                 (case dss of [] \<Rightarrow> iceCandidateQueueRef ?h3
                  | ds # dss' \<Rightarrow> ds @ weave (iceCandidateQueueRef ?h3) dss')\<rparr>)\<rparr>"
      by (rule flushIceCandidateQueue_resumed_weaves) simp_all
    have "handleWebRTCOffer_resolved cid caller senderId dss h =
        flushIceCandidateQueue_resumed cid senderId dss ?h3"
      by (simp add: handleWebRTCOffer_resolved_def seg)
    also note res
    also have "?h3\<lparr>iceCandidateQueueRef := [],
           pcRef := Some (?pc1\<lparr>iceCandidates := iceCandidates ?pc1 @
                 (case dss of [] \<Rightarrow> iceCandidateQueueRef ?h3
                  | ds # dss' \<Rightarrow> ds @ weave (iceCandidateQueueRef ?h3) dss')\<rparr>)\<rparr> =
      h\<lparr>remoteDescriptionSetRef := True, iceCandidateQueueRef := [],
        pcRef := Some (pc\<lparr>iceCandidates := iceCandidates pc @ weave (iceCandidateQueueRef h) dss\<rparr>)\<rparr>"
      using Cons by (cases dss) simp_all
    finally show ?thesis .
  qed
qed

lemma weave_mset: "mset (weave q dss) = mset q + mset (concat dss)"
  by (induction q dss rule: weave.induct) simp_all

lemma weave_subseq_queue: "subseq q (weave q dss)"
proof (induction q dss rule: weave.induct)
  case (3 c q ds dss)
  have "subseq q (ds @ weave q dss)"
    using "3.IH" by (rule list_emb_append2)
  then show ?case by simp
qed simp_all

lemma weave_subseq_arrivals: "subseq (concat dss) (weave q dss)"
proof (induction q dss rule: weave.induct)
  case (3 c q ds dss)
  have "subseq (ds @ concat dss) (ds @ weave q dss)"
    using "3.IH" by (intro list_emb_append_mono) simp_all
  then have "subseq (ds @ concat dss) (c # ds @ weave q dss)"
    by (rule list_emb_Cons)
  then show ?case by simp
qed simp_all

lemma receiverOfferMedia_state:
  "receiverOfferMedia =
    \<lparr>token = Some ''tok'', socket = Some True,
     callState = \<lparr>callId = Some ''c1'', callerId = Some ''A'', receiverId = None,
                   status = Ringing, remoteStream = None,
                   localStream = Some \<lparr>streamId = 7, tracks = [3]\<rparr>\<rparr>,
     callStateRef = \<lparr>callId = Some ''c1'', callerId = Some ''A'', receiverId = None,
                   status = Ringing, remoteStream = None,
                   localStream = Some \<lparr>streamId = 7, tracks = [3]\<rparr>\<rparr>,
     effectCallState = idleCallState,
     pcRef = Some \<lparr>configuration = [''turn:relay''], senders = [3],
                    remoteDescriptions = [''sdp''], localDescriptions = [],
                    iceCandidates = []\<rparr>,
     localStreamRef = Some \<lparr>streamId = 7, tracks = [3]\<rparr>, isCallerRef = False,
     rtcConfigRef = Some [''turn:relay''], iceCandidateQueueRef = [],
     remoteDescriptionSetRef = False,
     stoppedTracks = [], closedPeerConnections = [], mediaRequests = 1,
     apiCalls = [], signals = []\<rparr>"
  by (simp add: receiverOfferMedia_def receiverRinging_state handleWebRTCOffer_def
        handleWebRTCOffer_getLocalStream_def handleWebRTCOffer_setRemote_def
        initPeerConnection_def requestUserMedia_def getLocalStream_resolved_def
        setCallState_def render_def addTrack_def idleCallState_def Let_def)

lemma receiverAnswered_state:
  "receiverAnswered =
    \<lparr>token = Some ''tok'', socket = Some True,
     callState = \<lparr>callId = Some ''c1'', callerId = Some ''A'', receiverId = None,
                   status = Answered, remoteStream = None,
                   localStream = Some \<lparr>streamId = 8, tracks = [4]\<rparr>\<rparr>,
     callStateRef = \<lparr>callId = Some ''c1'', callerId = Some ''A'', receiverId = None,
                   status = Answered, remoteStream = None,
                   localStream = Some \<lparr>streamId = 8, tracks = [4]\<rparr>\<rparr>,
     effectCallState = idleCallState,
     pcRef = Some \<lparr>configuration = [''turn:relay''], senders = [4],
                    remoteDescriptions = [], localDescriptions = [],
                    iceCandidates = []\<rparr>,
     localStreamRef = Some \<lparr>streamId = 8, tracks = [4]\<rparr>, isCallerRef = False,
     rtcConfigRef = Some [''turn:relay''], iceCandidateQueueRef = [],
     remoteDescriptionSetRef = False,
     stoppedTracks = [],
     closedPeerConnections = [\<lparr>configuration = [''turn:relay''], senders = [3, 4],
                    remoteDescriptions = [''sdp''], localDescriptions = [],
                    iceCandidates = []\<rparr>],
     mediaRequests = 2,
     apiCalls = [ApiAnswerCall ''tok'' ''c1''], signals = []\<rparr>"
  by (simp add: receiverAnswered_def receiverOfferMedia_state answerCallHandler_run_def
        answerCallHandler_def answerCallHandler_getLocalStream_def
        answerCallHandler_answerCall_def callApi_def
        initPeerConnection_def requestUserMedia_def getLocalStream_resolved_def
        setCallState_def render_def addTrack_def Let_def)

lemma receiverEnded_state:
  "receiverEnded =
    \<lparr>token = Some ''tok'', socket = Some True,
     callState = idleCallState, callStateRef = idleCallState,
     effectCallState = idleCallState,
     pcRef = None, localStreamRef = None, isCallerRef = False,
     rtcConfigRef = None, iceCandidateQueueRef = [], remoteDescriptionSetRef = False,
     stoppedTracks = [4],
     closedPeerConnections = [\<lparr>configuration = [''turn:relay''], senders = [3, 4],
                    remoteDescriptions = [''sdp''], localDescriptions = [],
                    iceCandidates = []\<rparr>,
                  \<lparr>configuration = [''turn:relay''], senders = [4],
                    remoteDescriptions = [], localDescriptions = [],
                    iceCandidates = []\<rparr>],
     mediaRequests = 2,
     apiCalls = [ApiAnswerCall ''tok'' ''c1'', ApiEndCall ''tok'' ''c1''], signals = []\<rparr>"
  by (simp add: receiverEnded_def receiverAnswered_state handleEndCall_run_def
        handleEndCall_def handleEndCall_endCall_def callApi_def cleanupWebRTCResources_def
        setCallState_def render_def Let_def)

lemma callerQueued_state:
  "callerQueued = callerRinging\<lparr>iceCandidateQueueRef := [''k1'', ''k2'']\<rparr>"
  by (simp add: callerQueued_def callerRinging_state handleICECandidate_def)

lemma callerRebuilt_state:
  "callerRebuilt =
    \<lparr>token = Some ''tok'', socket = Some True,
     callState = \<lparr>callId = Some ''c1'', callerId = None, receiverId = Some ''B'',
                   status = Ringing, remoteStream = None,
                   localStream = Some \<lparr>streamId = 7, tracks = [3]\<rparr>\<rparr>,
     callStateRef = \<lparr>callId = Some ''c1'', callerId = None, receiverId = Some ''B'',
                   status = Ringing, remoteStream = None,
                   localStream = Some \<lparr>streamId = 7, tracks = [3]\<rparr>\<rparr>,
     effectCallState = idleCallState,
     pcRef = Some \<lparr>configuration = [''turn:relay''], senders = [3], remoteDescriptions = [],
                    localDescriptions = [], iceCandidates = []\<rparr>,
     localStreamRef = Some \<lparr>streamId = 7, tracks = [3]\<rparr>, isCallerRef = True,
     rtcConfigRef = Some [''turn:relay''], iceCandidateQueueRef = [],
     remoteDescriptionSetRef = False,
     stoppedTracks = [],
     closedPeerConnections = [\<lparr>configuration = defaultRTCConfig, senders = [3],
                    remoteDescriptions = [], localDescriptions = [], iceCandidates = []\<rparr>],
     mediaRequests = 1,
     apiCalls = [ApiInitiateCall ''tok'' ''B''], signals = []\<rparr>"
  by (simp add: callerRebuilt_def callerQueued_state callerRinging_state handleCallInitiated_def
        initPeerConnection_def setCallState_def render_def addTrack_def Let_def)

lemma callerRebuiltConnected_state:
  "callerRebuiltConnected =
    callerRebuilt\<lparr>callState := (callState callerRebuilt)\<lparr>status := Connected\<rparr>,
      remoteDescriptionSetRef := True,
      pcRef := Some \<lparr>configuration = [''turn:relay''], senders = [3],
                     remoteDescriptions = [''sdp''], localDescriptions = [],
                     iceCandidates = []\<rparr>\<rparr>"
proof -
  let ?pc = "\<lparr>configuration = [''turn:relay''], senders = [3], remoteDescriptions = [],
               localDescriptions = [], iceCandidates = []\<rparr>"
  have pc: "pcRef callerRebuilt = Some ?pc"
    and cid: "callId (callStateRef callerRebuilt) = Some ''c1''"
    by (simp_all add: callerRebuilt_state)
  let ?h1 = "callerRebuilt\<lparr>pcRef := Some (?pc\<lparr>remoteDescriptions := remoteDescriptions ?pc @ [''sdp'']\<rparr>)\<rparr>"
  have "callerRebuiltConnected = handleWebRTCAnswer_resolved ''c1'' ''B'' [] ?h1"
    by (simp only: callerRebuiltConnected_def handleWebRTCAnswer_started [OF pc cid] fst_conv)
  also have "\<dots> =
    (setCallState (\<lambda>prev. if callId prev = Some ''c1'' then prev\<lparr>status := Connected\<rparr> else prev) ?h1)
      \<lparr>remoteDescriptionSetRef := True, iceCandidateQueueRef := [],
       pcRef := Some ((?pc\<lparr>remoteDescriptions := remoteDescriptions ?pc @ [''sdp'']\<rparr>)
         \<lparr>iceCandidates := iceCandidates (?pc\<lparr>remoteDescriptions := remoteDescriptions ?pc @ [''sdp'']\<rparr>)
             @ weave (iceCandidateQueueRef ?h1) []\<rparr>)\<rparr>"
    by (rule handleWebRTCAnswer_resolved_flushes) simp
  finally show ?thesis
    by (simp add: callerRebuilt_state setCallState_def)
qed

lemma cleanup_apiCalls: "apiCalls (cleanupWebRTCResources h) = apiCalls h"
  by (simp add: cleanupWebRTCResources_def setCallState_def Let_def split: option.splits)

lemma initPeerConnection_apiCalls: "apiCalls (initPeerConnection c h) = apiCalls h"
  by (simp add: initPeerConnection_def Let_def split: option.splits)

lemma getLocalStream_resolved_apiCalls: "apiCalls (getLocalStream_resolved s h) = apiCalls h"
  by (simp add: getLocalStream_resolved_def setCallState_def Let_def split: option.splits)

lemma flushIceCandidateQueue_loop_apiCalls:
  "apiCalls (fst (flushIceCandidateQueue_loop h)) = apiCalls h"
proof (induction h rule: flushIceCandidateQueue_loop.induct)
  case (1 h)
  show ?case
  proof (cases "iceCandidateQueueRef h")
    case Nil
    then show ?thesis by (subst flushIceCandidateQueue_loop.simps) simp
  next
    case (Cons c rest)
    show ?thesis
    proof (cases "pcRef h")
      case None
      have "apiCalls (fst (flushIceCandidateQueue_loop (h\<lparr>iceCandidateQueueRef := rest\<rparr>)))
          = apiCalls (h\<lparr>iceCandidateQueueRef := rest\<rparr>)"
        using Cons None by (rule "1.IH")
      then show ?thesis
        using Cons None by (subst flushIceCandidateQueue_loop.simps) simp
    next
      case (Some pc)
      then show ?thesis
        using Cons by (subst flushIceCandidateQueue_loop.simps) simp
    qed
  qed
qed

lemma flushIceCandidateQueue_apiCalls:
  "apiCalls (fst (flushIceCandidateQueue h)) = apiCalls h"
  by (simp add: flushIceCandidateQueue_def flushIceCandidateQueue_loop_apiCalls)

lemma handleWebRTCOffer_setRemote_apiCalls:
  "apiCalls (fst (handleWebRTCOffer_setRemote cid offer caller h)) = apiCalls h"
  by (simp add: handleWebRTCOffer_setRemote_def split: option.splits)

lemma handleWebRTCOffer_flushed_apiCalls:
  "apiCalls (fst (handleWebRTCOffer_flushed cid caller h)) = apiCalls h"
  by (simp add: handleWebRTCOffer_flushed_def split: option.splits)

lemma socketListener_apiCalls: "apiCalls (fst (socketListener e h)) = apiCalls h"
proof (cases e)
  case (CallWebRTCOffer cid offer caller)
  then show ?thesis
    by (simp add: handleWebRTCOffer_def handleWebRTCOffer_setRemote_apiCalls
          initPeerConnection_apiCalls requestUserMedia_def Let_def split: option.splits)
next
  case (CallInitiated cid rid cfg)
  then show ?thesis
    by (simp add: handleCallInitiated_def setCallState_def initPeerConnection_apiCalls Let_def
          split: option.splits)
next
  case (CallEnded cid endedBy)
  then show ?thesis by (simp add: handleCallEnded_def cleanup_apiCalls)
qed (simp_all add: handleCallIncoming_def handleCallAnswered_def handleCallConnected_def
      handleCallRejected_def handleWebRTCAnswer_def handleICECandidate_def
      handleCallError_def setCallState_def Let_def split: option.splits)

lemma remote_continuations_apiCalls:
  "apiCalls (fst (handleWebRTCOffer_getLocalStream cid offer caller media h)) = apiCalls h"
  "apiCalls (fst (handleWebRTCOffer_setRemoteDescription cid caller ok h)) = apiCalls h"
  "apiCalls (fst (handleWebRTCOffer_flush cid caller ok h)) = apiCalls h"
  "apiCalls (fst (handleWebRTCOffer_createAnswer cid caller r h)) = apiCalls h"
  "apiCalls (fst (handleWebRTCOffer_setLocalDescription cid caller answer ok h)) = apiCalls h"
  "apiCalls (fst (handleWebRTCAnswer_setRemoteDescription cid ok h)) = apiCalls h"
  "apiCalls (fst (handleWebRTCAnswer_flush ok h)) = apiCalls h"
  "apiCalls (fst (handleICECandidate_addIceCandidate ok h)) = apiCalls h"
proof -
  show "apiCalls (fst (handleWebRTCOffer_getLocalStream cid offer caller media h)) = apiCalls h"
    by (simp add: handleWebRTCOffer_getLocalStream_def handleWebRTCOffer_setRemote_apiCalls
          getLocalStream_resolved_apiCalls split: option.splits)
  show "apiCalls (fst (handleWebRTCOffer_setRemoteDescription cid caller ok h)) = apiCalls h"
    using flushIceCandidateQueue_apiCalls [of "h\<lparr>remoteDescriptionSetRef := True\<rparr>"]
      handleWebRTCOffer_flushed_apiCalls
    by (auto simp add: handleWebRTCOffer_setRemoteDescription_def split: prod.splits bool.splits)
  show "apiCalls (fst (handleWebRTCOffer_flush cid caller ok h)) = apiCalls h"
    using flushIceCandidateQueue_loop_apiCalls [of h] handleWebRTCOffer_flushed_apiCalls
    by (auto simp add: handleWebRTCOffer_flush_def split: prod.splits bool.splits)
  show "apiCalls (fst (handleWebRTCOffer_createAnswer cid caller r h)) = apiCalls h"
    by (simp add: handleWebRTCOffer_createAnswer_def split: option.splits)
  show "apiCalls (fst (handleWebRTCOffer_setLocalDescription cid caller answer ok h)) = apiCalls h"
    by (simp add: handleWebRTCOffer_setLocalDescription_def setCallState_def socketEmit_def)
  show "apiCalls (fst (handleWebRTCAnswer_setRemoteDescription cid ok h)) = apiCalls h"
    using flushIceCandidateQueue_apiCalls
      [of "setCallState (\<lambda>prev. if callId prev = Some cid then prev\<lparr>status := Connected\<rparr> else prev)
                  (h\<lparr>remoteDescriptionSetRef := True\<rparr>)"]
    by (auto simp add: handleWebRTCAnswer_setRemoteDescription_def setCallState_def
          split: prod.splits bool.splits)
  show "apiCalls (fst (handleWebRTCAnswer_flush ok h)) = apiCalls h"
    using flushIceCandidateQueue_loop_apiCalls [of h]
    by (auto simp add: handleWebRTCAnswer_flush_def split: prod.splits bool.splits)
  show "apiCalls (fst (handleICECandidate_addIceCandidate ok h)) = apiCalls h"
    by (simp add: handleICECandidate_addIceCandidate_def)
qed

lemma initiate_answer_apiCalls:
  "apiCalls (fst (initiateCallHandler rid h)) = apiCalls h @
        (case token h of
           Some t \<Rightarrow> if t \<noteq> [] \<and> socket h \<noteq> None then [ApiInitiateCall t rid] else []
         | None \<Rightarrow> [])
   \<and> apiCalls (fst (initiateCallHandler_initiateCall rid r h)) = apiCalls h
   \<and> apiCalls (fst (initiateCallHandler_getLocalStream cid rid media h)) = apiCalls h
   \<and> apiCalls (fst (initiateCallHandler_createOffer cid rid r h)) = apiCalls h
   \<and> apiCalls (fst (initiateCallHandler_setLocalDescription cid rid offer ok h)) = apiCalls h
   \<and> apiCalls (fst (answerCallHandler cid h)) = apiCalls h
   \<and> apiCalls (fst (answerCallHandler_getLocalStream tok cid media h)) = apiCalls h @
        (case media of Some stream \<Rightarrow> [ApiAnswerCall tok cid] | None \<Rightarrow> [])
   \<and> apiCalls (fst (answerCallHandler_answerCall cid ok h)) = apiCalls h"
proof -
  have ensure: "apiCalls (ensureTracks x) = apiCalls x" for x
    by (simp add: ensureTracks_def Let_def split: option.splits)
  have 1: "apiCalls (fst (initiateCallHandler rid h)) = apiCalls h @
        (case token h of
           Some t \<Rightarrow> if t \<noteq> [] \<and> socket h \<noteq> None then [ApiInitiateCall t rid] else []
         | None \<Rightarrow> [])"
    by (simp add: initiateCallHandler_def callApi_def split: option.splits)
  have 2: "apiCalls (fst (initiateCallHandler_initiateCall rid r h)) = apiCalls h"
    by (simp add: initiateCallHandler_initiateCall_def initiateCallHandler_catch_def
          requestUserMedia_def setCallState_def split: option.splits)
  have 3: "apiCalls (fst (initiateCallHandler_getLocalStream cid rid media h)) = apiCalls h"
    by (simp add: initiateCallHandler_getLocalStream_def initiateCallHandler_catch_def
          setCallState_def ensure initPeerConnection_apiCalls getLocalStream_resolved_apiCalls
          Let_def split: option.splits)
  have 4: "apiCalls (fst (initiateCallHandler_createOffer cid rid r h)) = apiCalls h"
    by (simp add: initiateCallHandler_createOffer_def initiateCallHandler_catch_def
          setCallState_def split: option.splits)
  have 5: "apiCalls (fst (initiateCallHandler_setLocalDescription cid rid offer ok h)) = apiCalls h"
    by (simp add: initiateCallHandler_setLocalDescription_def initiateCallHandler_catch_def
          setCallState_def socketEmit_def)
  have 6: "apiCalls (fst (answerCallHandler cid h)) = apiCalls h"
    by (simp add: answerCallHandler_def requestUserMedia_def split: option.splits)
  have 7: "apiCalls (fst (answerCallHandler_getLocalStream tok cid media h)) = apiCalls h @
        (case media of Some stream \<Rightarrow> [ApiAnswerCall tok cid] | None \<Rightarrow> [])"
    by (simp add: answerCallHandler_getLocalStream_def callApi_def initPeerConnection_apiCalls
          getLocalStream_resolved_apiCalls Let_def split: option.splits)
  have 8: "apiCalls (fst (answerCallHandler_answerCall cid ok h)) = apiCalls h"
    by (simp add: answerCallHandler_answerCall_def setCallState_def)
  from 1 2 3 4 5 6 7 8 show ?thesis by blast
qed

text \<open>
  What \<^verbatim>\<open>handleEndCall\<close> does release, on every path: run without interleaving from any
  state \<open>h\<close>, and resumed after the REST call in any state \<open>h'\<close>, with either outcome \<open>ok\<close>,
  it leaves the status idle, the call id cleared, and the referenced stream dropped with
  all its tracks stopped. Ending again, once the hook has rendered, makes no REST call
  and changes nothing.
\<close>

lemma handleEndCall_releases_referenced_stream:
  "referencedStreamReleased h (handleEndCall_run ok h)
   \<and> referencedStreamReleased h' (fst (handleEndCall_endCall ok h'))
   \<and> handleEndCall (render (handleEndCall_run ok h)) = (render (handleEndCall_run ok h), None)"
proof -
  have run: "handleEndCall_run ok h = cleanupWebRTCResources h \<or> (\<exists>c. handleEndCall_run ok h = cleanupWebRTCResources (callApi c h))"
    by (auto simp add: handleEndCall_run_def handleEndCall_def handleEndCall_endCall_def split: option.splits)
  have 1: "referencedStreamReleased h (handleEndCall_run ok h)"
    using run cleanup_referencedStreamReleased [of h] cleanup_referencedStreamReleased callApi_referencedStreamReleased by metis
  have 2: "referencedStreamReleased h' (fst (handleEndCall_endCall ok h'))"
    by (simp add: handleEndCall_endCall_def cleanup_referencedStreamReleased)
  have idle: "callId (callState (cleanupWebRTCResources x)) = None" for x
    by (simp add: cleanupWebRTCResources_def setCallState_def idleCallState_def Let_def split: option.splits)
  have again: "handleEndCall (render (cleanupWebRTCResources x)) = (render (cleanupWebRTCResources x), None)" for x
    using idle [of x] cleanup_idem [of x] by (simp add: handleEndCall_def render_def)
  have 3: "handleEndCall (render (handleEndCall_run ok h)) = (render (handleEndCall_run ok h), None)"
    using run again by metis
  from 1 2 3 show ?thesis by simp
qed

text \<open>
  The REST calls each handler makes. No handler of a remote event makes one, neither
  when the event arrives nor in a continuation, and the callbacks of the connection
  make none, but for a failed connection, which ends the call as a local end does. A
  local end makes the call of the end endpoint when the call id and the token are
  truthy, a local reject that of the reject endpoint when the token is truthy, and
  initiate and answer those of their own endpoints.
\<close>

lemma apiCalls_of_every_handler:
  "apiCalls (fst (socketListener e h)) = apiCalls h
   \<and> apiCalls (fst (handleWebRTCOffer_getLocalStream cid offer caller media h)) = apiCalls h
   \<and> apiCalls (fst (handleWebRTCOffer_setRemoteDescription cid caller ok h)) = apiCalls h
   \<and> apiCalls (fst (handleWebRTCOffer_flush cid caller ok h)) = apiCalls h
   \<and> apiCalls (fst (handleWebRTCOffer_createAnswer cid caller r h)) = apiCalls h
   \<and> apiCalls (fst (handleWebRTCOffer_setLocalDescription cid caller answer ok h)) = apiCalls h
   \<and> apiCalls (fst (handleWebRTCAnswer_setRemoteDescription cid ok h)) = apiCalls h
   \<and> apiCalls (fst (handleWebRTCAnswer_flush ok h)) = apiCalls h
   \<and> apiCalls (fst (handleICECandidate_addIceCandidate ok h)) = apiCalls h
   \<and> apiCalls (ontrack stream0 h) = apiCalls h
   \<and> apiCalls (onicecandidate candidate h) = apiCalls h
   \<and> apiCalls (fst (handleEndCall h)) = apiCalls h @
        (case (callId (callStateRef h), token h) of
           (Some i, Some t) \<Rightarrow> if i \<noteq> [] \<and> t \<noteq> [] then [ApiEndCall t i] else []
         | _ \<Rightarrow> [])
   \<and> apiCalls (fst (handleEndCall_endCall ok h)) = apiCalls h
   \<and> apiCalls (fst (onconnectionstatechange connectionState h)) =
        (if connectionState = ''failed'' then apiCalls (fst (handleEndCall h)) else apiCalls h)
   \<and> apiCalls (fst (rejectCallHandler cid h)) = apiCalls h @
        (case token h of
           Some t \<Rightarrow> if t \<noteq> [] then [ApiRejectCall t cid] else []
         | None \<Rightarrow> [])
   \<and> apiCalls (fst (rejectCallHandler_rejectCall cid ok h)) = apiCalls h
   \<and> apiCalls (fst (initiateCallHandler rid h)) = apiCalls h @
        (case token h of
           Some t \<Rightarrow> if t \<noteq> [] \<and> socket h \<noteq> None then [ApiInitiateCall t rid] else []
         | None \<Rightarrow> [])
   \<and> apiCalls (fst (initiateCallHandler_initiateCall rid r h)) = apiCalls h
   \<and> apiCalls (fst (initiateCallHandler_getLocalStream cid rid media h)) = apiCalls h
   \<and> apiCalls (fst (initiateCallHandler_createOffer cid rid r h)) = apiCalls h
   \<and> apiCalls (fst (initiateCallHandler_setLocalDescription cid rid offer ok h)) = apiCalls h
   \<and> apiCalls (fst (answerCallHandler cid h)) = apiCalls h
   \<and> apiCalls (fst (answerCallHandler_getLocalStream tok cid media h)) = apiCalls h @
        (case media of Some stream \<Rightarrow> [ApiAnswerCall tok cid] | None \<Rightarrow> [])
   \<and> apiCalls (fst (answerCallHandler_answerCall cid ok h)) = apiCalls h"
proof -
  have e: "apiCalls (fst (handleEndCall h)) = apiCalls h @
        (case (callId (callStateRef h), token h) of
           (Some i, Some t) \<Rightarrow> if i \<noteq> [] \<and> t \<noteq> [] then [ApiEndCall t i] else []
         | _ \<Rightarrow> [])"
    by (simp add: handleEndCall_def callApi_def cleanup_apiCalls split: option.splits)
  have e2: "apiCalls (fst (handleEndCall_endCall ok h)) = apiCalls h"
    by (simp add: handleEndCall_endCall_def cleanup_apiCalls)
  have f: "apiCalls (fst (onconnectionstatechange connectionState h)) =
        (if connectionState = ''failed'' then apiCalls (fst (handleEndCall h)) else apiCalls h)"
    by (simp add: onconnectionstatechange_def)
  have r: "apiCalls (fst (rejectCallHandler cid h)) = apiCalls h @
        (case token h of
           Some t \<Rightarrow> if t \<noteq> [] then [ApiRejectCall t cid] else []
         | None \<Rightarrow> [])"
    by (simp add: rejectCallHandler_def callApi_def split: option.splits)
  have r2: "apiCalls (fst (rejectCallHandler_rejectCall cid ok h)) = apiCalls h"
    by (simp add: rejectCallHandler_rejectCall_def setCallState_def)
  have cb: "apiCalls (ontrack stream0 h) = apiCalls h"
    "apiCalls (onicecandidate candidate h) = apiCalls h"
    by (simp_all add: ontrack_def onicecandidate_def setCallState_def socketEmit_def Let_def
          split: option.splits)
  have remote:
    "apiCalls (fst (socketListener e h)) = apiCalls h
     \<and> apiCalls (fst (handleWebRTCOffer_getLocalStream cid offer caller media h)) = apiCalls h
     \<and> apiCalls (fst (handleWebRTCOffer_setRemoteDescription cid caller ok h)) = apiCalls h
     \<and> apiCalls (fst (handleWebRTCOffer_flush cid caller ok h)) = apiCalls h
     \<and> apiCalls (fst (handleWebRTCOffer_createAnswer cid caller r h)) = apiCalls h
     \<and> apiCalls (fst (handleWebRTCOffer_setLocalDescription cid caller answer ok h)) = apiCalls h
     \<and> apiCalls (fst (handleWebRTCAnswer_setRemoteDescription cid ok h)) = apiCalls h
     \<and> apiCalls (fst (handleWebRTCAnswer_flush ok h)) = apiCalls h
     \<and> apiCalls (fst (handleICECandidate_addIceCandidate ok h)) = apiCalls h"
    by (simp only: socketListener_apiCalls remote_continuations_apiCalls simp_thms)
  from remote cb e e2 f r r2 initiate_answer_apiCalls [of rid h r cid media offer ok tok]
  show ?thesis by (intro conjI) blast+
qed

section \<open>The claims\<close>

text \<open>
  Claim C1: a remote signaling event whose call id is not that of the live session
  leaves the session unchanged. The handlers of \<^verbatim>\<open>call:ended\<close>, \<^verbatim>\<open>call:answered\<close> and
  \<^verbatim>\<open>call:webrtc-answer\<close> compare the call ids; those of \<^verbatim>\<open>call:rejected\<close>,
  \<^verbatim>\<open>call:webrtc-offer\<close> and \<^verbatim>\<open>call:webrtc-ice-candidate\<close> do not. In the state
  \<open>callerRinging\<close>, whose call is \<^verbatim>\<open>c1\<close>, events of a call \<^verbatim>\<open>c9\<close> are handled as follows:
  \<^verbatim>\<open>call:rejected\<close> resets the status to idle and clears the call id, a candidate is put in
  the queue, and an offer is given to the connection as its remote description.
\<close>

theorem event_for_other_call_mutates_session:
  "callId (callState callerRinging) = Some ''c1''
   \<and> status (callState callerRinging) = Ringing
   \<and> callId (callState (fst (socketListener (CallRejected ''c9'') callerRinging))) = None
   \<and> status (callState (fst (socketListener (CallRejected ''c9'') callerRinging))) = Idle
   \<and> iceCandidateQueueRef
        (fst (socketListener (CallWebRTCICECandidate ''c9'' (Some ''x'') ''Z'') callerRinging))
        = [''x'']
   \<and> map_option remoteDescriptions
        (pcRef (fst (socketListener (CallWebRTCOffer ''c9'' ''sdp'' ''Z'') callerRinging)))
        = Some [''sdp'']"
  by (simp add: callerRinging_state handleCallRejected_def setCallState_def
        handleICECandidate_def handleWebRTCOffer_def handleWebRTCOffer_setRemote_def)

text \<open>
  Claim C2: ending a call always leaves the status idle, the call id cleared and no
  capture track retained. The cleanup stops the tracks of the stream that the hook
  references when it runs, and \<^verbatim>\<open>getLocalStream\<close> replaces that reference without stopping
  the stream it held (line 175). In \<open>receiverOfferMedia\<close> the offer handler has acquired
  the stream 7, the call still ringing; the user answers, and \<^verbatim>\<open>answerCallHandler\<close>
  acquires the stream 8 in its place; the user ends the call. The status is idle, the
  call id cleared and the reference dropped, but \<^verbatim>\<open>stop()\<close> was called on the track 4 only:
  the track 3 is still capturing.
\<close>

theorem end_leaves_overwritten_stream_capturing:
  "localStreamRef receiverOfferMedia = Some \<lparr>streamId = 7, tracks = [3]\<rparr>
   \<and> status (callState receiverOfferMedia) = Ringing
   \<and> snd (answerCallHandler ''c1'' receiverOfferMedia) = Some (AwaitAnswerMedia ''tok'' ''c1'')
   \<and> localStreamRef receiverAnswered = Some \<lparr>streamId = 8, tracks = [4]\<rparr>
   \<and> status (callState receiverAnswered) = Answered
   \<and> stoppedTracks receiverAnswered = []
   \<and> status (callState receiverEnded) = Idle
   \<and> callId (callState receiverEnded) = None
   \<and> localStream (callState receiverEnded) = None
   \<and> localStreamRef receiverEnded = None
   \<and> stoppedTracks receiverEnded = [4]
   \<and> 3 \<notin> set (stoppedTracks receiverEnded)"
  by (simp add: receiverOfferMedia_state receiverAnswered_state receiverEnded_state
        answerCallHandler_def idleCallState_def)

text \<open>
  Claim C3, as stated, fails: in \<open>callerQueued\<close> two candidates are in the queue. The
  event \<^verbatim>\<open>call:initiated\<close> of the same call arrives with a configuration and the
  connection is rebuilt, which empties the queue: neither the closed connection nor the
  new one was given a candidate. The answer arrives and is applied, the call is
  connected, and the two candidates have not been applied and never will be.
\<close>

theorem rebuild_drops_queued_candidates:
  "iceCandidateQueueRef callerQueued = [''k1'', ''k2'']
   \<and> map_option iceCandidates (pcRef callerQueued) = Some []
   \<and> callId (callState callerRebuilt) = Some ''c1''
   \<and> iceCandidateQueueRef callerRebuilt = []
   \<and> map_option iceCandidates (pcRef callerRebuilt) = Some []
   \<and> map iceCandidates (closedPeerConnections callerRebuilt) = [[]]
   \<and> remoteDescriptionSetRef callerRebuiltConnected
   \<and> status (callState callerRebuiltConnected) = Connected
   \<and> iceCandidateQueueRef callerRebuiltConnected = []
   \<and> map_option iceCandidates (pcRef callerRebuiltConnected) = Some []
   \<and> map iceCandidates (closedPeerConnections callerRebuiltConnected) = [[]]"
  by (simp add: callerRebuiltConnected_state callerRebuilt_state callerQueued_state
        callerRinging_state)

text \<open>
  Claim C3, amended to one connection and one application of the remote description.
  With a connection \<open>pc\<close> in place and no remote description applied yet, the candidates
  \<open>cs\<close> that arrive are queued behind those already waiting, in arrival order, and none
  is given to the connection (a flush does nothing). The same holds of the candidates
  \<open>cs'\<close> that arrive while \<^verbatim>\<open>setRemoteDescription\<close> is awaited, and nothing is applied when
  it rejects. When it resolves, for an answer of the live call or for an offer, the
  flush gives the queued candidates to the connection, while the candidates \<open>dss\<close> that
  arrive during its awaits are given to the connection as they arrive: the connection
  receives, after those it had, the list \<open>weave q dss\<close> of the queue \<open>q\<close> and these
  arrivals, and the queue is empty. That list is \<open>q\<close> when nothing arrives; it has the
  elements of \<open>q\<close> and of the arrivals with their multiplicities, so each queued candidate
  is applied once; and both \<open>q\<close> and the arrivals keep their order in it. The candidates
  \<open>ds\<close> that arrive afterwards are given to the connection at once, in arrival order, and
  are not queued. Building a connection, and the cleanup, close \<open>pc\<close> as it is and empty
  the queue: what was in the queue is not applied.
\<close>

theorem queued_candidates_applied_once_on_one_transport:
  assumes "pcRef h = Some pc" and "\<not> remoteDescriptionSetRef h"
    and "callId (callStateRef h) = Some cid"
  shows
    "(let h1 = handleICECandidates cid cs senderId h;
          h2 = fst (handleWebRTCAnswer cid answer rid h1);
          h3 = handleICECandidates cid cs' senderId h2;
          h4 = handleWebRTCAnswer_resolved cid senderId dss h3;
          h5 = handleICECandidates cid ds senderId h4
      in map_option iceCandidates (pcRef h1) = Some (iceCandidates pc)
         \<and> iceCandidateQueueRef h1 = iceCandidateQueueRef h @ cs
         \<and> flushIceCandidateQueue h1 = (h1, False)
         \<and> map_option iceCandidates (pcRef h3) = Some (iceCandidates pc)
         \<and> iceCandidateQueueRef h3 = iceCandidateQueueRef h @ cs @ cs'
         \<and> handleWebRTCAnswer_setRemoteDescription cid False h3 = (h3, None)
         \<and> map_option iceCandidates (pcRef h4) =
               Some (iceCandidates pc @ weave (iceCandidateQueueRef h @ cs @ cs') dss)
         \<and> iceCandidateQueueRef h4 = [] \<and> remoteDescriptionSetRef h4
         \<and> map_option iceCandidates (pcRef h5) =
               Some (iceCandidates pc @ weave (iceCandidateQueueRef h @ cs @ cs') dss @ ds)
         \<and> iceCandidateQueueRef h5 = [])
     \<and> (let h1 = handleICECandidates cid cs senderId h;
            h2 = fst (handleWebRTCOffer cid offer caller h1);
            h3 = handleICECandidates cid cs' senderId h2;
            h4 = handleWebRTCOffer_resolved cid caller senderId dss h3;
            h5 = handleICECandidates cid ds senderId h4
        in map_option iceCandidates (pcRef h3) = Some (iceCandidates pc)
           \<and> iceCandidateQueueRef h3 = iceCandidateQueueRef h @ cs @ cs'
           \<and> handleWebRTCOffer_setRemoteDescription cid caller False h3 = (h3, None)
           \<and> map_option iceCandidates (pcRef h4) =
               Some (iceCandidates pc @ weave (iceCandidateQueueRef h @ cs @ cs') dss)
           \<and> iceCandidateQueueRef h4 = [] \<and> remoteDescriptionSetRef h4
           \<and> map_option iceCandidates (pcRef h5) =
               Some (iceCandidates pc @ weave (iceCandidateQueueRef h @ cs @ cs') dss @ ds)
           \<and> iceCandidateQueueRef h5 = [])
     \<and> weave q [] = q
     \<and> mset (weave q dss) = mset q + mset (concat dss)
     \<and> subseq q (weave q dss)
     \<and> subseq (concat dss) (weave q dss)
     \<and> iceCandidateQueueRef (initPeerConnection cfg h) = []
     \<and> \<not> remoteDescriptionSetRef (initPeerConnection cfg h)
     \<and> map_option iceCandidates (pcRef (initPeerConnection cfg h)) = Some []
     \<and> closedPeerConnections (initPeerConnection cfg h) = closedPeerConnections h @ [pc]
     \<and> iceCandidateQueueRef (cleanupWebRTCResources h) = []
     \<and> pcRef (cleanupWebRTCResources h) = None
     \<and> closedPeerConnections (cleanupWebRTCResources h) = closedPeerConnections h @ [pc]"
proof -
  let ?q = "iceCandidateQueueRef h"
  let ?h1 = "h\<lparr>iceCandidateQueueRef := ?q @ cs\<rparr>"
  have h1: "handleICECandidates cid cs senderId h = ?h1"
    using assms(1,2) by (rule handleICECandidates_queued)
  have pc1: "pcRef ?h1 = Some pc" and id1: "callId (callStateRef ?h1) = Some cid"
    and nf1: "\<not> remoteDescriptionSetRef ?h1"
    using assms by simp_all
  have fl1: "flushIceCandidateQueue ?h1 = (?h1, False)"
    using nf1 by (simp add: flushIceCandidateQueue_def)
  let ?pcA = "pc\<lparr>remoteDescriptions := remoteDescriptions pc @ [answer]\<rparr>"
  let ?a2 = "?h1\<lparr>pcRef := Some ?pcA\<rparr>"
  have a2: "fst (handleWebRTCAnswer cid answer rid ?h1) = ?a2"
    by (simp only: handleWebRTCAnswer_started [OF pc1 id1] fst_conv)
  let ?a3 = "?a2\<lparr>iceCandidateQueueRef := iceCandidateQueueRef ?a2 @ cs'\<rparr>"
  have a3: "handleICECandidates cid cs' senderId ?a2 = ?a3"
    by (rule handleICECandidates_queued [where pc = ?pcA]) (simp_all add: assms(2))
  let ?f = "\<lambda>prev. if callId prev = Some cid then prev\<lparr>status := Connected\<rparr> else prev"
  let ?pcA4 = "?pcA\<lparr>iceCandidates := iceCandidates ?pcA @ weave (iceCandidateQueueRef ?a3) dss\<rparr>"
  let ?a4 = "(setCallState ?f ?a3)\<lparr>remoteDescriptionSetRef := True,
      iceCandidateQueueRef := [], pcRef := Some ?pcA4\<rparr>"
  have a4: "handleWebRTCAnswer_resolved cid senderId dss ?a3 = ?a4"
    by (rule handleWebRTCAnswer_resolved_flushes) simp
  have a5: "handleICECandidates cid ds senderId ?a4 =
      ?a4\<lparr>pcRef := Some (?pcA4\<lparr>iceCandidates := iceCandidates ?pcA4 @ ds\<rparr>)\<rparr>"
    by (rule handleICECandidates_direct) (simp_all add: setCallState_def)
  have rejA: "handleWebRTCAnswer_setRemoteDescription cid False ?a3 = (?a3, None)"
    by (simp add: handleWebRTCAnswer_setRemoteDescription_def)
  have answer_path: "(let h1 = handleICECandidates cid cs senderId h;
          h2 = fst (handleWebRTCAnswer cid answer rid h1);
          h3 = handleICECandidates cid cs' senderId h2;
          h4 = handleWebRTCAnswer_resolved cid senderId dss h3;
          h5 = handleICECandidates cid ds senderId h4
      in map_option iceCandidates (pcRef h1) = Some (iceCandidates pc)
         \<and> iceCandidateQueueRef h1 = iceCandidateQueueRef h @ cs
         \<and> flushIceCandidateQueue h1 = (h1, False)
         \<and> map_option iceCandidates (pcRef h3) = Some (iceCandidates pc)
         \<and> iceCandidateQueueRef h3 = iceCandidateQueueRef h @ cs @ cs'
         \<and> handleWebRTCAnswer_setRemoteDescription cid False h3 = (h3, None)
         \<and> map_option iceCandidates (pcRef h4) =
               Some (iceCandidates pc @ weave (iceCandidateQueueRef h @ cs @ cs') dss)
         \<and> iceCandidateQueueRef h4 = [] \<and> remoteDescriptionSetRef h4
         \<and> map_option iceCandidates (pcRef h5) =
               Some (iceCandidates pc @ weave (iceCandidateQueueRef h @ cs @ cs') dss @ ds)
         \<and> iceCandidateQueueRef h5 = [])"
    unfolding Let_def h1 a2 a3 a4 a5 fl1 rejA using assms(1) by (simp add: setCallState_def)
  let ?pcO = "pc\<lparr>remoteDescriptions := remoteDescriptions pc @ [offer]\<rparr>"
  let ?b2 = "?h1\<lparr>pcRef := Some ?pcO\<rparr>"
  have b2: "fst (handleWebRTCOffer cid offer caller ?h1) = ?b2"
    by (simp only: handleWebRTCOffer_started [OF pc1] fst_conv)
  let ?b3 = "?b2\<lparr>iceCandidateQueueRef := iceCandidateQueueRef ?b2 @ cs'\<rparr>"
  have b3: "handleICECandidates cid cs' senderId ?b2 = ?b3"
    by (rule handleICECandidates_queued [where pc = ?pcO]) (simp_all add: assms(2))
  let ?pcO4 = "?pcO\<lparr>iceCandidates := iceCandidates ?pcO @ weave (iceCandidateQueueRef ?b3) dss\<rparr>"
  let ?b4 = "?b3\<lparr>remoteDescriptionSetRef := True,
      iceCandidateQueueRef := [], pcRef := Some ?pcO4\<rparr>"
  have b4: "handleWebRTCOffer_resolved cid caller senderId dss ?b3 = ?b4"
    by (rule handleWebRTCOffer_resolved_flushes) simp
  have b5: "handleICECandidates cid ds senderId ?b4 =
      ?b4\<lparr>pcRef := Some (?pcO4\<lparr>iceCandidates := iceCandidates ?pcO4 @ ds\<rparr>)\<rparr>"
    by (rule handleICECandidates_direct) simp_all
  have rejO: "handleWebRTCOffer_setRemoteDescription cid caller False ?b3 = (?b3, None)"
    by (simp add: handleWebRTCOffer_setRemoteDescription_def)
  have offer_path: "(let h1 = handleICECandidates cid cs senderId h;
            h2 = fst (handleWebRTCOffer cid offer caller h1);
            h3 = handleICECandidates cid cs' senderId h2;
            h4 = handleWebRTCOffer_resolved cid caller senderId dss h3;
            h5 = handleICECandidates cid ds senderId h4
        in map_option iceCandidates (pcRef h3) = Some (iceCandidates pc)
           \<and> iceCandidateQueueRef h3 = iceCandidateQueueRef h @ cs @ cs'
           \<and> handleWebRTCOffer_setRemoteDescription cid caller False h3 = (h3, None)
           \<and> map_option iceCandidates (pcRef h4) =
               Some (iceCandidates pc @ weave (iceCandidateQueueRef h @ cs @ cs') dss)
           \<and> iceCandidateQueueRef h4 = [] \<and> remoteDescriptionSetRef h4
           \<and> map_option iceCandidates (pcRef h5) =
               Some (iceCandidates pc @ weave (iceCandidateQueueRef h @ cs @ cs') dss @ ds)
           \<and> iceCandidateQueueRef h5 = [])"
    unfolding Let_def h1 b2 b3 b4 b5 rejO by simp
  have order: "weave q [] = q \<and> mset (weave q dss) = mset q + mset (concat dss)
      \<and> subseq q (weave q dss) \<and> subseq (concat dss) (weave q dss)"
    by (simp add: weave_mset weave_subseq_queue weave_subseq_arrivals)
  have rebuilt: "iceCandidateQueueRef (initPeerConnection cfg h) = []
      \<and> \<not> remoteDescriptionSetRef (initPeerConnection cfg h)
      \<and> map_option iceCandidates (pcRef (initPeerConnection cfg h)) = Some []
      \<and> closedPeerConnections (initPeerConnection cfg h) = closedPeerConnections h @ [pc]"
  proof -
    have "iceCandidates (foldl (\<lambda>p t. addTrack t p) p0 ts) = iceCandidates p0" for p0 ts
      by (induction ts arbitrary: p0) (simp_all add: addTrack_def)
    then show ?thesis
      using assms(1) by (cases h) (simp add: initPeerConnection_def Let_def split: option.splits)
  qed
  have torn: "iceCandidateQueueRef (cleanupWebRTCResources h) = []
      \<and> pcRef (cleanupWebRTCResources h) = None
      \<and> closedPeerConnections (cleanupWebRTCResources h) = closedPeerConnections h @ [pc]"
    using assms(1)
    by (cases h) (simp add: cleanupWebRTCResources_def setCallState_def Let_def split: option.splits)
  from answer_path offer_path order rebuilt torn show ?thesis by blast
qed

text \<open>
  Claim C3, at a concrete state: two candidates arrive at \<open>callerRinging\<close>, then the
  answer, a third candidate while its description is being applied, one more during
  the first await of the flush, and a last one afterwards.
\<close>

theorem queued_candidates_applied_once_on_one_transport_witness:
  "pcRef callerRinging = Some \<lparr>configuration = defaultRTCConfig, senders = [3],
        remoteDescriptions = [], localDescriptions = [], iceCandidates = []\<rparr>
   \<and> \<not> remoteDescriptionSetRef callerRinging
   \<and> callId (callStateRef callerRinging) = Some ''c1''
   \<and> iceCandidateQueueRef
        (handleICECandidates ''c1'' [''k3''] ''B''
           (fst (handleWebRTCAnswer ''c1'' ''sdp'' ''B''
              (handleICECandidates ''c1'' [''k1'', ''k2''] ''B'' callerRinging))))
        = [''k1'', ''k2'', ''k3'']
   \<and> map_option iceCandidates
        (pcRef (handleWebRTCAnswer_resolved ''c1'' ''B'' [[''k9'']]
           (handleICECandidates ''c1'' [''k3''] ''B''
              (fst (handleWebRTCAnswer ''c1'' ''sdp'' ''B''
                 (handleICECandidates ''c1'' [''k1'', ''k2''] ''B'' callerRinging))))))
        = Some [''k1'', ''k9'', ''k2'', ''k3'']
   \<and> map_option iceCandidates
        (pcRef (handleICECandidates ''c1'' [''k4''] ''B''
           (handleWebRTCAnswer_resolved ''c1'' ''B'' [[''k9'']]
              (handleICECandidates ''c1'' [''k3''] ''B''
                 (fst (handleWebRTCAnswer ''c1'' ''sdp'' ''B''
                    (handleICECandidates ''c1'' [''k1'', ''k2''] ''B'' callerRinging)))))))
        = Some [''k1'', ''k9'', ''k2'', ''k3'', ''k4'']"
proof -
  have a: "pcRef callerRinging = Some \<lparr>configuration = defaultRTCConfig, senders = [3],
        remoteDescriptions = [], localDescriptions = [], iceCandidates = []\<rparr>"
    and b: "\<not> remoteDescriptionSetRef callerRinging"
    and c: "callId (callStateRef callerRinging) = Some ''c1''"
    and q: "iceCandidateQueueRef callerRinging = []"
    by (simp_all add: callerRinging_state)
  from queued_candidates_applied_once_on_one_transport [OF a b c,
      of "[''k1'', ''k2'']" "''B''" "''sdp''" "''B''" "[''k3'']" "[[''k9'']]" "[''k4'']"]
  show ?thesis
    unfolding Let_def q using a b c by simp
qed

text \<open>
  Claim C4: every transition to idle clears all the session fields together. The
  cleanup of \<^verbatim>\<open>end\<close> and of \<^verbatim>\<open>call:ended\<close> does; the handlers of \<^verbatim>\<open>call:rejected\<close>, of a local
  reject and of \<^verbatim>\<open>call:error\<close> do not. After \<^verbatim>\<open>call:rejected\<close> for the live call in
  \<open>callerRinging\<close> the status is idle and the call id cleared, but the peer id, the
  capture stream (none of its tracks stopped) and the connection remain. After
  \<^verbatim>\<open>call:error\<close> even the call id remains. After a local reject in \<open>receiverRinging\<close> the
  caller id and the negotiation configuration remain.
\<close>

theorem rejected_leaves_session_fields:
  "status (callState (handleCallRejected ''c1'' callerRinging)) = Idle
   \<and> callId (callState (handleCallRejected ''c1'' callerRinging)) = None
   \<and> receiverId (callState (handleCallRejected ''c1'' callerRinging)) = Some ''B''
   \<and> localStream (callState (handleCallRejected ''c1'' callerRinging))
        = Some \<lparr>streamId = 7, tracks = [3]\<rparr>
   \<and> localStreamRef (handleCallRejected ''c1'' callerRinging)
        = Some \<lparr>streamId = 7, tracks = [3]\<rparr>
   \<and> pcRef (handleCallRejected ''c1'' callerRinging) \<noteq> None
   \<and> stoppedTracks (handleCallRejected ''c1'' callerRinging) = []
   \<and> status (callState (handleCallError ''boom'' callerRinging)) = Idle
   \<and> callId (callState (handleCallError ''boom'' callerRinging)) = Some ''c1''
   \<and> status (callState (fst (rejectCallHandler_rejectCall ''c1'' True
                (fst (rejectCallHandler ''c1'' receiverRinging))))) = Idle
   \<and> callerId (callState (fst (rejectCallHandler_rejectCall ''c1'' True
                (fst (rejectCallHandler ''c1'' receiverRinging))))) = Some ''A''
   \<and> rtcConfigRef (fst (rejectCallHandler_rejectCall ''c1'' True
                (fst (rejectCallHandler ''c1'' receiverRinging)))) = Some [''turn:relay'']"
  by (simp add: callerRinging_state receiverRinging_state handleCallRejected_def
        handleCallError_def setCallState_def rejectCallHandler_def
        rejectCallHandler_rejectCall_def callApi_def)

text \<open>
  Claim C5, as stated, fails: in \<open>callerRinging\<close> the session of the call \<^verbatim>\<open>c1\<close> is ringing,
  and a \<^verbatim>\<open>call:incoming\<close> event of the call \<^verbatim>\<open>c2\<close> installs \<^verbatim>\<open>c2\<close> as the call id, the
  connection of \<^verbatim>\<open>c1\<close> still in place.
\<close>

theorem incoming_replaces_resident_session:
  "status (callState callerRinging) = Ringing
   \<and> callId (callState callerRinging) = Some ''c1''
   \<and> callId (callState (fst (socketListener (CallIncoming ''c2'' ''Z'' None) callerRinging)))
        = Some ''c2''
   \<and> pcRef (fst (socketListener (CallIncoming ''c2'' ''Z'' None) callerRinging))
        = pcRef callerRinging"
  by (simp add: callerRinging_state handleCallIncoming_def setCallState_def)

text \<open>
  Claim C5, amended: the hook holds one call state, and nothing guards it by status.
  From any state, \<^verbatim>\<open>call:incoming\<close> installs its call id and sets the status to ringing;
  \<^verbatim>\<open>call:initiated\<close> installs its call id; an initiate whose REST call resolved installs
  the id of the new call and sets the status to ringing; an answer whose REST call
  resolved installs its call id and sets the status to answered. Whether initiate and
  answer start at all does not depend on the call state.
\<close>

theorem callId_installed_without_status_guard:
  "callId (callState (handleCallIncoming cid caller cfg h)) = Some cid
   \<and> status (callState (handleCallIncoming cid caller cfg h)) = Ringing
   \<and> callId (callState (handleCallInitiated cid rid cfg h)) = Some cid
   \<and> callId (callState (fst (initiateCallHandler_initiateCall rid (Some cid) h))) = Some cid
   \<and> status (callState (fst (initiateCallHandler_initiateCall rid (Some cid) h))) = Ringing
   \<and> callId (callState (fst (answerCallHandler_answerCall cid True h))) = Some cid
   \<and> status (callState (fst (answerCallHandler_answerCall cid True h))) = Answered
   \<and> snd (initiateCallHandler rid (h\<lparr>callState := s, callStateRef := s\<rparr>))
        = snd (initiateCallHandler rid h)
   \<and> snd (answerCallHandler cid (h\<lparr>callState := s, callStateRef := s\<rparr>))
        = snd (answerCallHandler cid h)"
  by (simp add: handleCallIncoming_def handleCallInitiated_def
        initiateCallHandler_initiateCall_def answerCallHandler_answerCall_def
        initiateCallHandler_def answerCallHandler_def
        initPeerConnection_def requestUserMedia_def setCallState_def Let_def
        split: option.splits)

text \<open>
  Claim C6: a remote \<^verbatim>\<open>call:ended\<close> or \<^verbatim>\<open>call:rejected\<close> event performs the local teardown
  and makes no REST call. Neither makes a REST call, and \<^verbatim>\<open>call:ended\<close> for the live call
  runs the cleanup; \<^verbatim>\<open>call:rejected\<close> does not. In \<open>callerRinging\<close>, after \<^verbatim>\<open>call:rejected\<close> for
  the live call the status is idle, but the capture stream is still referenced, none of
  its tracks stopped, and the connection is still open; after \<^verbatim>\<open>call:ended\<close> the stream
  is dropped, its track stopped and the connection closed.
\<close>

theorem remote_rejected_skips_teardown:
  "apiCalls (fst (socketListener (CallRejected ''c1'') callerRinging)) = apiCalls callerRinging
   \<and> status (callState (fst (socketListener (CallRejected ''c1'') callerRinging))) = Idle
   \<and> localStreamRef (fst (socketListener (CallRejected ''c1'') callerRinging))
        = Some \<lparr>streamId = 7, tracks = [3]\<rparr>
   \<and> pcRef (fst (socketListener (CallRejected ''c1'') callerRinging)) = pcRef callerRinging
   \<and> pcRef callerRinging \<noteq> None
   \<and> stoppedTracks (fst (socketListener (CallRejected ''c1'') callerRinging)) = []
   \<and> closedPeerConnections (fst (socketListener (CallRejected ''c1'') callerRinging)) = []
   \<and> apiCalls (fst (socketListener (CallEnded ''c1'' ''B'') callerRinging)) = apiCalls callerRinging
   \<and> callState (fst (socketListener (CallEnded ''c1'' ''B'') callerRinging)) = idleCallState
   \<and> localStreamRef (fst (socketListener (CallEnded ''c1'' ''B'') callerRinging)) = None
   \<and> pcRef (fst (socketListener (CallEnded ''c1'' ''B'') callerRinging)) = None
   \<and> stoppedTracks (fst (socketListener (CallEnded ''c1'' ''B'') callerRinging)) = [3]
   \<and> map senders (closedPeerConnections (fst (socketListener (CallEnded ''c1'' ''B'') callerRinging)))
        = [[3]]"
  by (simp add: callerRinging_state handleCallRejected_def handleCallEnded_def
        cleanupWebRTCResources_def setCallState_def Let_def)

text \<open>
  Claim C7: a continuation checks that its session is still the live one before it
  applies its result. The continuations of \<^verbatim>\<open>initiateCallHandler\<close> do not. The user
  initiates a call to \<^verbatim>\<open>B\<close>; the REST call returns the call \<^verbatim>\<open>c1\<close> and the handler waits
  for the microphone; the user ends the call, which resets everything; then the
  microphone is granted. The continuation stores the stream in the idle session, none
  of its tracks stopped, builds a connection and goes on to create an offer, which it
  sends for the call \<^verbatim>\<open>c1\<close>.
\<close>

theorem stale_media_result_mutates_closed_session:
  "snd (initiateCallHandler ''B'' (initialHook (Some ''tok'') (Some True)))
      = Some (AwaitInitiateCall ''B'')
   \<and> snd (initiateCallHandler_initiateCall ''B'' (Some ''c1'')
            (fst (initiateCallHandler ''B'' (initialHook (Some ''tok'') (Some True)))))
      = Some (AwaitInitiateMedia ''c1'' ''B'')
   \<and> callId (callState initiateAwaitingMedia) = Some ''c1''
   \<and> status (callState initiateAwaitingMedia) = Ringing
   \<and> callState endedAwaitingMedia = idleCallState
   \<and> pcRef endedAwaitingMedia = None \<and> localStreamRef endedAwaitingMedia = None
   \<and> snd (initiateCallHandler_getLocalStream ''c1'' ''B''
            (Some \<lparr>streamId = 7, tracks = [3]\<rparr>) endedAwaitingMedia)
      = Some (AwaitCreateOffer ''c1'' ''B'')
   \<and> callState (fst (initiateCallHandler_getLocalStream ''c1'' ''B''
            (Some \<lparr>streamId = 7, tracks = [3]\<rparr>) endedAwaitingMedia))
      = idleCallState\<lparr>localStream := Some \<lparr>streamId = 7, tracks = [3]\<rparr>\<rparr>
   \<and> localStreamRef (fst (initiateCallHandler_getLocalStream ''c1'' ''B''
            (Some \<lparr>streamId = 7, tracks = [3]\<rparr>) endedAwaitingMedia))
      = Some \<lparr>streamId = 7, tracks = [3]\<rparr>
   \<and> pcRef (fst (initiateCallHandler_getLocalStream ''c1'' ''B''
            (Some \<lparr>streamId = 7, tracks = [3]\<rparr>) endedAwaitingMedia))
      = Some \<lparr>configuration = defaultRTCConfig, senders = [3], remoteDescriptions = [],
               localDescriptions = [], iceCandidates = []\<rparr>
   \<and> stoppedTracks (fst (initiateCallHandler_getLocalStream ''c1'' ''B''
            (Some \<lparr>streamId = 7, tracks = [3]\<rparr>) endedAwaitingMedia)) = []
   \<and> signals (fst (initiateCallHandler_setLocalDescription ''c1'' ''B'' ''sdp'' True
        (fst (initiateCallHandler_createOffer ''c1'' ''B'' (Some ''sdp'')
           (fst (initiateCallHandler_getLocalStream ''c1'' ''B''
                  (Some \<lparr>streamId = 7, tracks = [3]\<rparr>) endedAwaitingMedia))))))
      = [EmitWebRTCOffer ''c1'' ''sdp'' ''B'']"
proof -
  have started:
    "snd (initiateCallHandler ''B'' (initialHook (Some ''tok'') (Some True)))
        = Some (AwaitInitiateCall ''B'')
     \<and> snd (initiateCallHandler_initiateCall ''B'' (Some ''c1'')
            (fst (initiateCallHandler ''B'' (initialHook (Some ''tok'') (Some True)))))
        = Some (AwaitInitiateMedia ''c1'' ''B'')
     \<and> callId (callState initiateAwaitingMedia) = Some ''c1''
     \<and> status (callState initiateAwaitingMedia) = Ringing"
    by (simp add: initiateAwaitingMedia_state initialHook_def initiateCallHandler_def
          initiateCallHandler_initiateCall_def)
  have closed:
    "callState endedAwaitingMedia = idleCallState
     \<and> pcRef endedAwaitingMedia = None \<and> localStreamRef endedAwaitingMedia = None"
    by (simp add: endedAwaitingMedia_state)
  have stale:
    "snd (initiateCallHandler_getLocalStream ''c1'' ''B''
            (Some \<lparr>streamId = 7, tracks = [3]\<rparr>) endedAwaitingMedia)
        = Some (AwaitCreateOffer ''c1'' ''B'')
     \<and> callState (fst (initiateCallHandler_getLocalStream ''c1'' ''B''
            (Some \<lparr>streamId = 7, tracks = [3]\<rparr>) endedAwaitingMedia))
        = idleCallState\<lparr>localStream := Some \<lparr>streamId = 7, tracks = [3]\<rparr>\<rparr>
     \<and> localStreamRef (fst (initiateCallHandler_getLocalStream ''c1'' ''B''
            (Some \<lparr>streamId = 7, tracks = [3]\<rparr>) endedAwaitingMedia))
        = Some \<lparr>streamId = 7, tracks = [3]\<rparr>
     \<and> pcRef (fst (initiateCallHandler_getLocalStream ''c1'' ''B''
            (Some \<lparr>streamId = 7, tracks = [3]\<rparr>) endedAwaitingMedia))
        = Some \<lparr>configuration = defaultRTCConfig, senders = [3], remoteDescriptions = [],
               localDescriptions = [], iceCandidates = []\<rparr>
     \<and> stoppedTracks (fst (initiateCallHandler_getLocalStream ''c1'' ''B''
            (Some \<lparr>streamId = 7, tracks = [3]\<rparr>) endedAwaitingMedia)) = []
     \<and> signals (fst (initiateCallHandler_setLocalDescription ''c1'' ''B'' ''sdp'' True
          (fst (initiateCallHandler_createOffer ''c1'' ''B'' (Some ''sdp'')
             (fst (initiateCallHandler_getLocalStream ''c1'' ''B''
                    (Some \<lparr>streamId = 7, tracks = [3]\<rparr>) endedAwaitingMedia))))))
        = [EmitWebRTCOffer ''c1'' ''sdp'' ''B'']"
    by (simp add: stale_getLocalStream_state initiateCallHandler_createOffer_def
          initiateCallHandler_setLocalDescription_def socketEmit_def)
  from started closed stale show ?thesis by blast
qed

text \<open>
  Claim C8, as stated, fails for answer: in \<open>receiverRinging\<close> the user answers the call.
  When the microphone is refused, and also when it is granted and the REST call fails,
  the status is still ringing.
\<close>

theorem failed_answer_keeps_ringing:
  "status (callState receiverRinging) = Ringing
   \<and> snd (answerCallHandler ''c1'' receiverRinging) = Some (AwaitAnswerMedia ''tok'' ''c1'')
   \<and> status (callState (fst (answerCallHandler_getLocalStream ''tok'' ''c1'' None
                (fst (answerCallHandler ''c1'' receiverRinging))))) = Ringing
   \<and> status (callState (fst (answerCallHandler_answerCall ''c1'' False
         (fst (answerCallHandler_getLocalStream ''tok'' ''c1''
                 (Some \<lparr>streamId = 7, tracks = [3]\<rparr>)
                 (fst (answerCallHandler ''c1'' receiverRinging))))))) = Ringing"
  by (simp add: receiverRinging_state answerCallHandler_def requestUserMedia_def
        answerCallHandler_getLocalStream_def answerCallHandler_answerCall_def
        getLocalStream_resolved_def initPeerConnection_def setCallState_def callApi_def Let_def)

text \<open>
  Claim C8, amended: a failure during initiate (of the REST call, of the capture, of
  \<^verbatim>\<open>createOffer\<close> or of \<^verbatim>\<open>setLocalDescription\<close>) ends the handler with the status idle, in
  whatever state the handler is resumed. A failure during answer (of the capture or of
  the REST call) ends the handler with the status it had when the action started: the
  failing continuation changes nothing, and what the action did before it does not
  touch the status.
\<close>

theorem failed_initiate_idle_failed_answer_status_kept:
  "status (callState (fst (initiateCallHandler_initiateCall rid None h))) = Idle
   \<and> snd (initiateCallHandler_initiateCall rid None h) = None
   \<and> status (callState (fst (initiateCallHandler_getLocalStream cid rid None h))) = Idle
   \<and> snd (initiateCallHandler_getLocalStream cid rid None h) = None
   \<and> status (callState (fst (initiateCallHandler_createOffer cid rid None h))) = Idle
   \<and> snd (initiateCallHandler_createOffer cid rid None h) = None
   \<and> status (callState (fst (initiateCallHandler_setLocalDescription cid rid offer False h))) = Idle
   \<and> snd (initiateCallHandler_setLocalDescription cid rid offer False h) = None
   \<and> answerCallHandler_getLocalStream tok cid None h = (h, None)
   \<and> answerCallHandler_answerCall cid False h = (h, None)
   \<and> status (callState (answerCallHandler_run cid None ok h)) = status (callState h)
   \<and> status (callState (answerCallHandler_run cid (Some stream) False h)) = status (callState h)"
proof -
  have initiate:
    "status (callState (fst (initiateCallHandler_initiateCall rid None h))) = Idle
     \<and> snd (initiateCallHandler_initiateCall rid None h) = None
     \<and> status (callState (fst (initiateCallHandler_getLocalStream cid rid None h))) = Idle
     \<and> snd (initiateCallHandler_getLocalStream cid rid None h) = None
     \<and> status (callState (fst (initiateCallHandler_createOffer cid rid None h))) = Idle
     \<and> snd (initiateCallHandler_createOffer cid rid None h) = None
     \<and> status (callState (fst (initiateCallHandler_setLocalDescription cid rid offer False h))) = Idle
     \<and> snd (initiateCallHandler_setLocalDescription cid rid offer False h) = None
     \<and> answerCallHandler_getLocalStream tok cid None h = (h, None)
     \<and> answerCallHandler_answerCall cid False h = (h, None)"
    by (simp add: initiateCallHandler_initiateCall_def initiateCallHandler_getLocalStream_def
          initiateCallHandler_createOffer_def initiateCallHandler_setLocalDescription_def
          initiateCallHandler_catch_def setCallState_def
          answerCallHandler_getLocalStream_def answerCallHandler_answerCall_def)
  have st_init: "status (callState (initPeerConnection c x)) = status (callState x)" for c x
    by (simp add: initPeerConnection_def Let_def split: option.splits)
  have st_media: "status (callState (getLocalStream_resolved s x)) = status (callState x)" for s x
    by (simp add: getLocalStream_resolved_def setCallState_def Let_def split: option.splits)
  have refused: "status (callState (answerCallHandler_run cid None ok h)) = status (callState h)"
    by (simp add: answerCallHandler_run_def answerCallHandler_def
          answerCallHandler_getLocalStream_def requestUserMedia_def split: option.splits)
  have rest_failed:
    "status (callState (answerCallHandler_run cid (Some stream) False h)) = status (callState h)"
    by (simp add: answerCallHandler_run_def answerCallHandler_def
          answerCallHandler_getLocalStream_def answerCallHandler_answerCall_def
          requestUserMedia_def callApi_def st_init st_media Let_def split: option.splits)
  from initiate refused rest_failed show ?thesis by blast
qed

text \<open>
  Claim C9: the terminal \<^verbatim>\<open>null\<close> candidate of the local connection changes nothing (in
  particular no signal is emitted), and a remote event with a \<^verbatim>\<open>null\<close> candidate changes
  nothing either: it is neither queued nor given to the connection.
\<close>

theorem null_candidate_is_noop:
  "onicecandidate None h = h \<and> handleICECandidate cid None senderId h = (h, None)
   \<and> socketListener (CallWebRTCICECandidate cid None senderId) h = (h, None)"
  by (simp add: onicecandidate_def handleICECandidate_def)



end
